theory Spec2Isabelle
  imports Complex_Main "HOL-Library.Log_Nat" "HOL-Library.AList"
begin

section \<open>C strings and the C library calls used by the restart rotation\<close>

text \<open>
  A C string is modelled by the list of its characters before the terminating NUL.
  Reading \<open>s[i]\<close> at \<open>i = length s\<close> yields the terminator; the source never reads
  beyond it.
\<close>

definition NUL :: char where
  "NUL = CHR 0x00"

definition HASH :: char where
  "HASH = CHR ''#''"

definition cidx :: "string \<Rightarrow> nat \<Rightarrow> char" where
  "cidx s i = (if i < length s then s ! i else NUL)"

text \<open>\<open>isdigit\<close> and \<open>isspace\<close> of \<open>ctype.h\<close> in the C locale.\<close>

definition isdigit :: "char \<Rightarrow> bool" where
  "isdigit c = (48 \<le> (of_char c :: int) \<and> (of_char c :: int) \<le> 57)"

definition isspace :: "char \<Rightarrow> bool" where
  "isspace c = ((of_char c :: int) = 32 \<or> (9 \<le> (of_char c :: int) \<and> (of_char c :: int) \<le> 13))"

definition digit_val :: "char \<Rightarrow> int" where
  "digit_val c = of_char c - 48"

definition dec_value :: "string \<Rightarrow> int" where
  "dec_value ds = foldl (\<lambda>a c. 10 * a + digit_val c) 0 ds"

text \<open>\<open>INT_MAX\<close> for a 32-bit \<open>int\<close> and \<open>ULONG_MAX\<close> for a 64-bit \<open>unsigned long\<close>.\<close>

definition INT_MAX :: int where
  "INT_MAX = 2147483647"

definition ULONG_MAX :: int where
  "ULONG_MAX = 18446744073709551615"

text \<open>
  \<open>strtoul(s, &endptr, 10)\<close>: skips leading white space, accepts one optional sign, then
  reads the longest run of decimal digits. The result is the value (saturated at
  \<open>ULONG_MAX\<close> on overflow, negated in \<open>unsigned long\<close> after a minus sign) and the number
  of characters consumed, which is \<open>endptr - s\<close>; with no digits nothing is consumed.
\<close>

definition strtoul :: "string \<Rightarrow> int \<times> nat" where
  "strtoul s =
     (let ws = takeWhile isspace s;
          r = dropWhile isspace s;
          neg = (r \<noteq> [] \<and> hd r = CHR ''-'');
          sg = (if r \<noteq> [] \<and> (hd r = CHR ''-'' \<or> hd r = CHR ''+'') then 1 else 0);
          ds = takeWhile isdigit (drop sg r);
          v = dec_value ds
      in if ds = [] then (0, 0)
         else ((if ULONG_MAX < v then ULONG_MAX
                else if neg then (ULONG_MAX + 1 - v) mod (ULONG_MAX + 1)
                else v),
               length ws + sg + length ds))"

section \<open>restart\_nextindex\<close>

text \<open>The four scanning loops of \<open>restart_nextindex\<close>, one function each.\<close>

function fwd_scan :: "string \<Rightarrow> string \<Rightarrow> nat \<Rightarrow> nat" where
  "fwd_scan tmpl name i =
     (if cidx tmpl i \<noteq> NUL \<and> cidx name i \<noteq> NUL \<and> cidx tmpl i = cidx name i
      then fwd_scan tmpl name (i + 1) else i)"
  by pat_completeness auto
termination
  by (relation "measure (\<lambda>(tmpl, name, i). length tmpl - i)") (auto simp: cidx_def split: if_splits)

function last_hash :: "string \<Rightarrow> nat \<Rightarrow> nat \<Rightarrow> nat \<times> nat" where
  "last_hash tmpl j k =
     (if cidx tmpl k \<noteq> NUL
      then last_hash tmpl (if cidx tmpl k = HASH then k else j) (k + 1)
      else (j, k))"
  by pat_completeness auto
termination
  by (relation "measure (\<lambda>(tmpl, j, k). length tmpl - k)") (auto simp: cidx_def split: if_splits)

function name_end :: "string \<Rightarrow> nat \<Rightarrow> nat" where
  "name_end name l = (if cidx name l \<noteq> NUL then name_end name (l + 1) else l)"
  by pat_completeness auto
termination
  by (relation "measure (\<lambda>(name, l). length name - l)") (auto simp: cidx_def split: if_splits)

function back_scan :: "string \<Rightarrow> string \<Rightarrow> nat \<Rightarrow> nat \<Rightarrow> nat \<Rightarrow> nat \<Rightarrow> nat \<times> nat" where
  "back_scan tmpl name i j k l =
     (if j < k \<and> i < l \<and> cidx tmpl k = cidx name l
      then back_scan tmpl name i j (k - 1) (l - 1) else (k, l))"
  by pat_completeness auto
termination
  by (relation "measure (\<lambda>(tmpl, name, i, j, k, l). k)") auto

text \<open>
  The closing sanity loop \<open>while (i != j) { if (tmpl[i] != '#') return errval; ++i; }\<close>.
  It is entered with \<open>i \<le> j\<close>; the result is whether it runs through.
\<close>

function single_run :: "string \<Rightarrow> nat \<Rightarrow> nat \<Rightarrow> bool" where
  "single_run tmpl i j =
     (if i < j then (if cidx tmpl i \<noteq> HASH then False else single_run tmpl (i + 1) j) else True)"
  by pat_completeness auto
termination
  by (relation "measure (\<lambda>(tmpl, i, j). j - i)") auto

declare fwd_scan.simps [simp del] last_hash.simps [simp del] name_end.simps [simp del]
  back_scan.simps [simp del] single_run.simps [simp del]

definition restart_nextindex :: "string \<Rightarrow> string \<Rightarrow> int \<Rightarrow> int" where
  "restart_nextindex tmpl name errval =
     (let i = fwd_scan tmpl name 0 in
      if cidx tmpl i = NUL then errval
      else if cidx tmpl i \<noteq> HASH then 0
      else if \<not> isdigit (cidx name i) then 0
      else
        let (j, k0) = last_hash tmpl i (i + 1);
            l0 = name_end name (i + 1);
            (k, l) = back_scan tmpl name i j k0 l0
        in if cidx tmpl k \<noteq> HASH then 0
           else
             let (curr, consumed) = strtoul (drop i name)
             in if i + consumed \<noteq> l + 1 then 0
                else if INT_MAX - 1 < curr then errval
                else if \<not> single_run tmpl i j then errval
                else curr + 1)"

section \<open>restart\_rename\<close>

datatype esio_status =
  ESIO_SUCCESS | ESIO_EFAULT | ESIO_EINVAL | ESIO_EFAILED | ESIO_ESANITY | ESIO_ENOMEM

text \<open>
  The file system is an association list from path to file content. Paths are relative to
  the working directory, and a leading \<open>./\<close> (which \<open>dirname\<close> introduces for a template
  without a directory part) is dropped when a path is resolved.
\<close>

type_synonym 'a filesys = "(string \<times> 'a) list"

definition resolve :: "string \<Rightarrow> string" where
  "resolve p = (if take 2 p = ''./'' then drop 2 p else p)"

text \<open>
  \<open>basename\<close> and \<open>dirname\<close> of \<open>libgen.h\<close>, for paths that do not end in a slash.
\<close>

definition basename_c :: "string \<Rightarrow> string" where
  "basename_c p = rev (takeWhile (\<lambda>c. c \<noteq> CHR ''/'') (rev p))"

definition dirname_c :: "string \<Rightarrow> string" where
  "dirname_c p =
     (if CHR ''/'' \<notin> set p then ''.''
      else let d = take (length p - length (basename_c p) - 1) p
           in if d = [] then ''/'' else d)"

definition stat_c :: "'a filesys \<Rightarrow> string \<Rightarrow> bool" where
  "stat_c fs p = (map_of fs (resolve p) \<noteq> None)"

text \<open>\<open>rename(2)\<close>: fails when the old path does not exist, replaces the new path otherwise.\<close>

definition rename_c :: "'a filesys \<Rightarrow> string \<Rightarrow> string \<Rightarrow> 'a filesys option" where
  "rename_c fs old new =
     (case map_of fs (resolve old) of
        None \<Rightarrow> None
      | Some v \<Rightarrow>
          if resolve old = resolve new then Some fs
          else Some (AList.update (resolve new) v (AList.delete (resolve old) fs)))"

definition entry_of :: "string \<Rightarrow> string \<Rightarrow> string option" where
  "entry_of dir key =
     (let pre = resolve (dir @ ''/'');
          nm = drop (length pre) key
      in if take (length pre) key = pre \<and> nm \<noteq> [] \<and> CHR ''/'' \<notin> set nm
         then Some nm else None)"

text \<open>
  \<open>scandir(dir, &namelist, filter, compar)\<close>: the entries of \<open>dir\<close> that the filter keeps,
  in the order of the comparison. The comparison of the source is \<open>strverscmp\<close> of the C
  library; the sort it induces is the parameter \<open>versort\<close>.
\<close>

definition scandir :: "(string list \<Rightarrow> string list) \<Rightarrow> 'a filesys \<Rightarrow> string \<Rightarrow> (string \<Rightarrow> bool) \<Rightarrow> string list" where
  "scandir versort fs dir flt = versort (filter flt (List.map_filter (entry_of dir) (map fst fs)))"

text \<open>The \<open>filter\<close> callback: \<open>restart_nextindex(filter_tmpl, d->d_name, 0)\<close> as a truth value.\<close>

definition filter_c :: "string \<Rightarrow> string \<Rightarrow> bool" where
  "filter_c filter_tmpl d_name = (restart_nextindex filter_tmpl d_name 0 \<noteq> 0)"

text \<open>Decimal digits of a non-negative \<open>int\<close>, and the conversion \<open>%*d\<close> of \<open>printf\<close>:
  the decimal number right-justified in a field of the given width, padded with blanks.\<close>

function dec_string :: "int \<Rightarrow> string" where
  "dec_string n =
     (if n < 10 then [char_of (48 + n)]
      else dec_string (n div 10) @ [char_of (48 + n mod 10)])"
  by pat_completeness auto
termination
  by (relation "measure nat") auto

declare dec_string.simps [simp del]

definition fmt_star_d :: "nat \<Rightarrow> int \<Rightarrow> string" where
  "fmt_star_d width n =
     (let s = (if n < 0 then CHR ''-'' # dec_string (- n) else dec_string n)
      in replicate (width - length s) CHR '' '' @ s)"

text \<open>
  \<open>ceil(log(n)/log(10))\<close> for \<open>n \<ge> 1\<close>, computed on integers: the least \<open>d\<close> with
  \<open>n \<le> 10 ^ d\<close>. Lemma \<open>ceil_log10_log\<close> below relates it to the real logarithm.
\<close>

function ceil_log10 :: "nat \<Rightarrow> nat" where
  "ceil_log10 n = (if n \<le> 1 then 0 else Suc (ceil_log10 ((n + 9) div 10)))"
  by pat_completeness auto
termination
  by (relation "measure id") auto

declare ceil_log10.simps [simp del]

text \<open>The block that widens \<open>ndigits\<close> to fit \<open>keep_howmany\<close>.\<close>

definition restart_ndigits :: "nat \<Rightarrow> int \<Rightarrow> nat" where
  "restart_ndigits ndigits keep_howmany =
     (let n = (if keep_howmany = 1 then 1 else ceil_log10 (nat (keep_howmany - 1)))
      in if n < ndigits then ndigits else n)"

text \<open>
  The loop \<open>while (n--)\<close> over the found entries, last entry first: the argument is the
  reversed \<open>namelist\<close>. An entry whose next index is out of range is skipped; any other is
  renamed, and a failing \<open>rename\<close> ends the call with \<open>ESIO_EFAILED\<close>.
\<close>

fun rotate_entries ::
  "string \<Rightarrow> string \<Rightarrow> string \<Rightarrow> string \<Rightarrow> nat \<Rightarrow> int \<Rightarrow> string list \<Rightarrow> 'a filesys
     \<Rightarrow> esio_status \<times> 'a filesys" where
  "rotate_entries tmpl_basename tmpl_dirname prefix suffix ndigits keep_howmany [] fs =
     (ESIO_SUCCESS, fs)"
| "rotate_entries tmpl_basename tmpl_dirname prefix suffix ndigits keep_howmany (d_name # rest) fs =
     (let next = restart_nextindex tmpl_basename d_name (- 1) in
      if next \<le> 0 \<or> keep_howmany \<le> next
      then rotate_entries tmpl_basename tmpl_dirname prefix suffix ndigits keep_howmany rest fs
      else
        let srcbuf = tmpl_dirname @ ''/'' @ d_name;
            dstbuf = tmpl_dirname @ ''/'' @ prefix @ fmt_star_d ndigits next @ suffix
        in case rename_c fs srcbuf dstbuf of
             None \<Rightarrow> (ESIO_EFAILED, fs)
           | Some fs' \<Rightarrow>
               rotate_entries tmpl_basename tmpl_dirname prefix suffix ndigits keep_howmany rest fs')"

text \<open>
  \<open>restart_rename\<close>. A \<open>NULL\<close> argument is \<open>None\<close>. Memory allocation is taken to succeed,
  so the \<open>ESIO_ENOMEM\<close> exits are not reached, and \<open>scandir\<close> is taken to succeed.
\<close>

definition restart_rename ::
  "(string list \<Rightarrow> string list) \<Rightarrow> 'a filesys \<Rightarrow> string option \<Rightarrow> string option \<Rightarrow> int
     \<Rightarrow> esio_status \<times> 'a filesys" where
  "restart_rename versort fs src_filename dst_template keep_howmany =
     (case src_filename of None \<Rightarrow> (ESIO_EFAULT, fs) | Some src \<Rightarrow>
      case dst_template of None \<Rightarrow> (ESIO_EFAULT, fs) | Some tmpl \<Rightarrow>
      if keep_howmany < 1 then (ESIO_EINVAL, fs)
      else if \<not> stat_c fs src then (ESIO_EFAILED, fs)
      else
        let tmpl_dirname = dirname_c tmpl;
            tmpl_basename = basename_c tmpl;
            prefix = takeWhile (\<lambda>c. c \<noteq> HASH) tmpl_basename;
            hashes = dropWhile (\<lambda>c. c \<noteq> HASH) tmpl_basename
        in if hashes = [] then (ESIO_EINVAL, fs)
           else
             let ndigits0 = length (takeWhile (\<lambda>c. c = HASH) hashes);
                 suffix = dropWhile (\<lambda>c. c = HASH) hashes
             in if HASH \<in> set suffix then (ESIO_EINVAL, fs)
                else
                  let ndigits = restart_ndigits ndigits0 keep_howmany;
                      namelist = scandir versort fs tmpl_dirname (filter_c tmpl_basename)
                  in case rotate_entries tmpl_basename tmpl_dirname prefix suffix
                            ndigits keep_howmany (rev namelist) fs of
                       (ESIO_SUCCESS, fs1) \<Rightarrow>
                         (let dstbuf = tmpl_dirname @ ''/'' @ prefix @ fmt_star_d ndigits 0 @ suffix
                          in case rename_c fs1 src dstbuf of
                               None \<Rightarrow> (ESIO_EFAILED, fs1)
                             | Some fs2 \<Rightarrow> (ESIO_SUCCESS, fs2))
                     | (err, fs1) \<Rightarrow> (err, fs1))"

section \<open>The handle, the error hook and the container substrate\<close>

text \<open>
  \<open>struct esio_state_s\<close>. A communicator or info object is \<open>None\<close> when it is
  \<open>MPI_COMM_NULL\<close> or \<open>MPI_INFO_NULL\<close>; \<open>file_id\<close> is \<open>- 1\<close> when no file is open. The
  handle type \<open>esio_state\<close> is a pointer to the struct: \<open>None\<close> is the \<open>NULL\<close> handle.
\<close>

type_synonym hid_t = int

record esio_state_s =
  comm :: "nat option"
  comm_rank :: int
  comm_size :: int
  info :: "nat option"
  file_id :: hid_t
  layout_tag :: int

type_synonym esio_state = "esio_state_s option"

datatype H5T_class_t =
  H5T_INTEGER | H5T_FLOAT | H5T_TIME | H5T_STRING | H5T_BITFIELD | H5T_OPAQUE
  | H5T_COMPOUND | H5T_REFERENCE | H5T_ENUM | H5T_VLEN | H5T_ARRAY

text \<open>
  Element types: the three native scalar types, one-dimensional arrays of a base type,
  and \<open>H5T_OTHER c\<close> for any other type of class \<open>c\<close>.
\<close>

datatype h5type =
  H5T_NATIVE_DOUBLE | H5T_NATIVE_FLOAT | H5T_NATIVE_INT
  | H5T_ARRAY1 h5type nat
  | H5T_OTHER H5T_class_t

fun H5Tget_class :: "h5type \<Rightarrow> H5T_class_t" where
  "H5Tget_class H5T_NATIVE_DOUBLE = H5T_FLOAT"
| "H5Tget_class H5T_NATIVE_FLOAT = H5T_FLOAT"
| "H5Tget_class H5T_NATIVE_INT = H5T_INTEGER"
| "H5Tget_class (H5T_ARRAY1 b n) = H5T_ARRAY"
| "H5Tget_class (H5T_OTHER c) = c"

text \<open>
  \<open>H5Tfind\<close>: whether the substrate has a conversion between two types. Numeric scalars
  convert into each other, arrays of equal length convert when their bases do, and every
  type converts into itself.
\<close>

fun H5Tfind :: "h5type \<Rightarrow> h5type \<Rightarrow> bool" where
  "H5Tfind (H5T_ARRAY1 a n) (H5T_ARRAY1 b m) = (n = m \<and> H5Tfind a b)"
| "H5Tfind (H5T_ARRAY1 a n) t = False"
| "H5Tfind s (H5T_ARRAY1 b m) = False"
| "H5Tfind (H5T_OTHER c) t = (t = H5T_OTHER c)"
| "H5Tfind s (H5T_OTHER c) = False"
| "H5Tfind s t = True"

text \<open>
  A dataset of the container: element type, extents of its dataspace, the elements in
  row-major order, and its integer attributes. A container maps dataset names to datasets.
\<close>

record 'v dataset =
  ds_type :: h5type
  ds_dims :: "nat list"
  ds_data :: "'v list"
  ds_attr :: "string \<rightharpoonup> int list"

type_synonym 'v container = "string \<rightharpoonup> 'v dataset"

text \<open>
  The state outside the handle: the containers on disk by path, the open file identifiers
  (path and whether the file is open for writing), the next fresh identifier, the error
  handler installed in the container driver (\<open>None\<close> when it is silenced) with the number
  of times the driver has called it, and the calls received by the ESIO error hook.
\<close>

record 'v world =
  disk :: "string \<rightharpoonup> 'v container"
  fopen :: "hid_t \<rightharpoonup> string \<times> bool"
  next_id :: hid_t
  h5e_auto :: "nat option"
  h5e_calls :: int
  esio_log :: "(string \<times> esio_status) list"

text \<open>
  What the collaborators may do on their own: calls that can fail for reasons outside the
  model, and the element conversion of the container driver between two element types.
\<close>

record 'v substrate =
  H5Pcreate_fails :: bool
  H5Pset_fapl_mpio_fails :: bool
  H5Fclose_fails :: bool
  H5Dclose_fails :: bool
  H5Pset_dxpl_mpio_fails :: bool
  MPI_Comm_free_fails :: bool
  MPI_Info_free_fails :: bool
  fill_value :: 'v
  convert :: "h5type \<Rightarrow> h5type \<Rightarrow> 'v \<Rightarrow> 'v"

text \<open>
  Modelled from the spec: the macros of \<open>error.h\<close>, which is not among the sources. Every
  operation that detects an error calls the installed error hook with a message and the
  error code, then returns the code (\<open>ESIO_ERROR\<close>) or a given value (\<open>ESIO_ERROR_VAL\<close>,
  \<open>ESIO_ERROR_NULL\<close>); \<open>ESIO_MPICHKR\<close> reports a failed MPI call with \<open>ESIO_EFAILED\<close> and
  goes on. The hook modelled here records the call and returns; the default hook of the
  library prints and aborts the process instead.
\<close>

definition esio_error :: "string \<Rightarrow> esio_status \<Rightarrow> 'v world \<Rightarrow> 'v world" where
  "esio_error reason code w = w\<lparr>esio_log := esio_log w @ [(reason, code)]\<rparr>"

definition ESIO_MPICHKR :: "bool \<Rightarrow> 'v world \<Rightarrow> 'v world" where
  "ESIO_MPICHKR failed w =
     (if failed then esio_error ''Encountered MPI error'' ESIO_EFAILED w else w)"

text \<open>A failing call of the container driver calls the driver's handler when one is installed.\<close>

definition h5_error :: "'v world \<Rightarrow> 'v world" where
  "h5_error w = (if h5e_auto w = None then w else w\<lparr>h5e_calls := h5e_calls w + 1\<rparr>)"

definition lookup_dset :: "'v world \<Rightarrow> hid_t \<Rightarrow> string \<Rightarrow> 'v dataset option" where
  "lookup_dset w loc_id name =
     (case fopen w loc_id of
        None \<Rightarrow> None
      | Some (path, rw) \<Rightarrow> (case disk w path of None \<Rightarrow> None | Some c \<Rightarrow> c name))"

definition writable :: "'v world \<Rightarrow> hid_t \<Rightarrow> bool" where
  "writable w loc_id = (case fopen w loc_id of None \<Rightarrow> False | Some (path, rw) \<Rightarrow> rw)"

definition store_dset :: "'v world \<Rightarrow> hid_t \<Rightarrow> string \<Rightarrow> 'v dataset \<Rightarrow> 'v world" where
  "store_dset w loc_id name ds =
     (case fopen w loc_id of
        None \<Rightarrow> w
      | Some (path, rw) \<Rightarrow>
          (case disk w path of
             None \<Rightarrow> w
           | Some c \<Rightarrow> w\<lparr>disk := (disk w)(path \<mapsto> c(name \<mapsto> ds))\<rparr>))"

subsection \<open>File lifecycle\<close>

text \<open>
  \<open>H5Fcreate\<close>, \<open>H5Fopen\<close> and \<open>H5Fclose\<close>. Creating with \<open>H5F_ACC_TRUNC\<close> replaces an
  existing container by an empty one; with \<open>H5F_ACC_EXCL\<close> it fails when the path exists.
\<close>

definition H5Fcreate :: "string \<Rightarrow> bool \<Rightarrow> 'v world \<Rightarrow> hid_t \<times> 'v world" where
  "H5Fcreate file trunc w =
     (if \<not> trunc \<and> disk w file \<noteq> None then (- 1, h5_error w)
      else (next_id w,
            w\<lparr>disk := (disk w)(file \<mapsto> Map.empty),
              fopen := (fopen w)(next_id w \<mapsto> (file, True)),
              next_id := next_id w + 1\<rparr>))"


definition H5Fclose :: "'v substrate \<Rightarrow> hid_t \<Rightarrow> 'v world \<Rightarrow> int \<times> 'v world" where
  "H5Fclose sub fid w =
     (if H5Fclose_fails sub \<or> fopen w fid = None then (- 1, h5_error w)
      else (0, w\<lparr>fopen := (fopen w)(fid := None)\<rparr>))"

definition esio_file_create ::
  "'v substrate \<Rightarrow> esio_state \<Rightarrow> string option \<Rightarrow> bool \<Rightarrow> 'v world
     \<Rightarrow> esio_status \<times> esio_state \<times> 'v world" where
  "esio_file_create sub s file overwrite w =
     (case s of
        None \<Rightarrow> (ESIO_EINVAL, s, esio_error ''s == NULL'' ESIO_EINVAL w)
      | Some st \<Rightarrow>
          if file_id st \<noteq> - 1
          then (ESIO_EINVAL, s,
                esio_error ''Cannot create file because previous file not closed'' ESIO_EINVAL w)
          else (case file of
             None \<Rightarrow> (ESIO_EINVAL, s, esio_error ''file == NULL'' ESIO_EINVAL w)
           | Some path \<Rightarrow>
               if H5Pcreate_fails sub
               then (ESIO_ESANITY, s, esio_error ''Unable to create fapl_id'' ESIO_ESANITY w)
               else if H5Pset_fapl_mpio_fails sub
               then (ESIO_ESANITY, s,
                     esio_error ''Unable to store MPI details in fapl_id'' ESIO_ESANITY w)
               else
                 let (fid, w1) = H5Fcreate path overwrite w
                 in if fid < 0
                    then (ESIO_EFAILED, s,
                          esio_error (if overwrite then ''Unable to create file''
                                      else ''File already exists'') ESIO_EFAILED w1)
                    else (ESIO_SUCCESS, Some (st\<lparr>file_id := fid\<rparr>), w1)))"


definition esio_file_close ::
  "'v substrate \<Rightarrow> esio_state \<Rightarrow> 'v world \<Rightarrow> esio_status \<times> esio_state \<times> 'v world" where
  "esio_file_close sub s w =
     (case s of
        None \<Rightarrow> (ESIO_EINVAL, s, esio_error ''s == NULL'' ESIO_EINVAL w)
      | Some st \<Rightarrow>
          if file_id st = - 1
          then (ESIO_EINVAL, s, esio_error ''No file currently open'' ESIO_EINVAL w)
          else
            let (rc, w1) = H5Fclose sub (file_id st) w
            in if rc < 0
               then (ESIO_EFAILED, s, esio_error ''Unable to close file'' ESIO_EFAILED w1)
               else (ESIO_SUCCESS, Some (st\<lparr>file_id := - 1\<rparr>), w1))"

text \<open>
  \<open>esio_finalize\<close>. The handle is freed, so only the status and the outside state come
  back. The status of the forced \<open>esio_file_close\<close> is dropped, as in the source.
\<close>

definition esio_finalize :: "'v substrate \<Rightarrow> esio_state \<Rightarrow> 'v world \<Rightarrow> esio_status \<times> 'v world" where
  "esio_finalize sub s w =
     (case s of
        None \<Rightarrow> (ESIO_SUCCESS, w)
      | Some st \<Rightarrow>
          let w1 = (if file_id st \<noteq> - 1 then snd (snd (esio_file_close sub s w)) else w);
              w2 = (if comm st \<noteq> None then ESIO_MPICHKR (MPI_Comm_free_fails sub) w1 else w1);
              w3 = (if info st \<noteq> None then ESIO_MPICHKR (MPI_Info_free_fails sub) w2 else w2)
          in (ESIO_SUCCESS, w3))"

subsection \<open>Field metadata\<close>

text \<open>
  \<open>esio_type_ncomponents\<close>. The unsupported classes report \<open>ESIO_ESANITY\<close> and yield \<open>- 1\<close>.
  (Arrays of another rank, on which the source asserts, are not among the modelled types.)
\<close>

definition esio_type_ncomponents :: "h5type \<Rightarrow> 'v world \<Rightarrow> int \<times> 'v world" where
  "esio_type_ncomponents type_id w =
     (case type_id of
        H5T_ARRAY1 b n \<Rightarrow> (int n, w)
      | _ \<Rightarrow>
        (case H5Tget_class type_id of
           H5T_ENUM \<Rightarrow> (1, w)
         | H5T_FLOAT \<Rightarrow> (1, w)
         | H5T_INTEGER \<Rightarrow> (1, w)
         | H5T_OPAQUE \<Rightarrow> (1, w)
         | H5T_COMPOUND \<Rightarrow> (- 1, esio_error ''H5T_COMPOUND not supported'' ESIO_ESANITY w)
         | H5T_REFERENCE \<Rightarrow> (- 1, esio_error ''H5T_REFERENCE not supported'' ESIO_ESANITY w)
         | H5T_STRING \<Rightarrow> (- 1, esio_error ''H5T_STRING not supported'' ESIO_ESANITY w)
         | H5T_VLEN \<Rightarrow> (- 1, esio_error ''H5T_VLEN not supported'' ESIO_ESANITY w)
         | H5T_TIME \<Rightarrow> (- 1, esio_error ''H5T_TIME not supported'' ESIO_ESANITY w)
         | _ \<Rightarrow> (- 1, esio_error ''Unknown H5T_class_t value'' ESIO_ESANITY w)))"

definition ESIO_MAJOR_VERSION :: int where "ESIO_MAJOR_VERSION = 0"
definition ESIO_MINOR_VERSION :: int where "ESIO_MINOR_VERSION = 0"
definition ESIO_POINT_VERSION :: int where "ESIO_POINT_VERSION = 1"

definition ESIO_FIELD_METADATA_SIZE :: nat where
  "ESIO_FIELD_METADATA_SIZE = 8"

text \<open>
  \<open>H5LTset_attribute_int\<close> and \<open>H5LTget_attribute_int\<close> on the object \<open>name\<close> of an open
  file. Reading copies the whole attribute to the start of the caller's buffer, whatever
  the buffer's size; the model keeps the slots of the buffer and drops what would land
  beyond them.
\<close>

definition H5LTset_attribute_int ::
  "hid_t \<Rightarrow> string \<Rightarrow> string \<Rightarrow> int list \<Rightarrow> 'v world \<Rightarrow> int \<times> 'v world" where
  "H5LTset_attribute_int loc_id name attr vals w =
     (case lookup_dset w loc_id name of
        None \<Rightarrow> (- 1, h5_error w)
      | Some ds \<Rightarrow>
          if \<not> writable w loc_id then (- 1, h5_error w)
          else (0, store_dset w loc_id name (ds\<lparr>ds_attr := (ds_attr ds)(attr \<mapsto> vals)\<rparr>)))"

definition H5LTget_attribute_int ::
  "hid_t \<Rightarrow> string \<Rightarrow> string \<Rightarrow> int list \<Rightarrow> 'v world \<Rightarrow> int \<times> int list \<times> 'v world" where
  "H5LTget_attribute_int loc_id name attr buf w =
     (case lookup_dset w loc_id name of
        None \<Rightarrow> (- 1, buf, h5_error w)
      | Some ds \<Rightarrow>
          (case ds_attr ds attr of
             None \<Rightarrow> (- 1, buf, h5_error w)
           | Some vals \<Rightarrow> (0, take (length buf) (vals @ drop (length vals) buf), w)))"

definition esio_field_metadata_write ::
  "hid_t \<Rightarrow> string \<Rightarrow> int \<Rightarrow> int \<Rightarrow> int \<Rightarrow> int \<Rightarrow> h5type \<Rightarrow> 'v world \<Rightarrow> int \<times> 'v world" where
  "esio_field_metadata_write loc_id name layout_tag' nc nb na type_id w =
     (let (ncomponents, w1) = esio_type_ncomponents type_id w;
          metadata = [ESIO_MAJOR_VERSION, ESIO_MINOR_VERSION, ESIO_POINT_VERSION,
                      layout_tag', nc, nb, na, ncomponents]
      in H5LTset_attribute_int loc_id name ''esio_metadata'' metadata w1)"

definition sentinel :: int where
  "sentinel = - 2147483648 + 999983"

text \<open>
  \<open>esio_field_metadata_read\<close>. The result is the status of \<open>H5LTget_attribute_int\<close> and the
  five values \<open>(layout_tag, nc, nb, na, ncomponents)\<close> when the outgoing arguments were
  populated. \<open>esio_nlayout\<close>, the size of the layout table, is a parameter. The
  uninitialised slots of the scratch buffer are taken to hold 0.
\<close>

definition esio_field_metadata_read ::
  "int \<Rightarrow> hid_t \<Rightarrow> string \<Rightarrow> 'v world
     \<Rightarrow> int \<times> (int \<times> int \<times> int \<times> int \<times> int) option \<times> 'v world" where
  "esio_field_metadata_read esio_nlayout loc_id name w =
     (let hdf5_handler = h5e_auto w;
          w1 = w\<lparr>h5e_auto := None\<rparr>;
          metadata0 = replicate ESIO_FIELD_METADATA_SIZE 0 @ [sentinel];
          (err, metadata, w2) = H5LTget_attribute_int loc_id name ''esio_metadata'' metadata0 w1;
          w3 = w2\<lparr>h5e_auto := hdf5_handler\<rparr>
      in if metadata ! ESIO_FIELD_METADATA_SIZE \<noteq> sentinel
         then (err, None, esio_error ''detected metadata buffer overflow'' ESIO_ESANITY w3)
         else if 0 \<le> err
         then
           let out = Some (metadata ! 3, metadata ! 4, metadata ! 5, metadata ! 6, metadata ! 7)
           in if metadata ! 3 < 0 \<or> esio_nlayout \<le> metadata ! 3
              then (err, out,
                    esio_error ''ESIO metadata contains unknown layout_tag'' ESIO_ESANITY w3)
              else (err, out, w3)
         else (err, None, w3))"

subsection \<open>Datasets, selections and transfers\<close>

text \<open>
  A dataset identifier names a dataset of an open file; \<open>H5D_invalid\<close> stands for every
  negative identifier and for an error code returned in place of an identifier.
\<close>

datatype dset_id = H5D_invalid | H5D hid_t string

definition H5Dcreate1 ::
  "'v substrate \<Rightarrow> hid_t \<Rightarrow> string \<Rightarrow> h5type \<Rightarrow> nat list \<Rightarrow> 'v world \<Rightarrow> dset_id \<times> 'v world" where
  "H5Dcreate1 sub loc_id name type_id dims w =
     (if fopen w loc_id = None \<or> \<not> writable w loc_id \<or> lookup_dset w loc_id name \<noteq> None
      then (H5D_invalid, h5_error w)
      else (H5D loc_id name,
            store_dset w loc_id name
              \<lparr>ds_type = type_id, ds_dims = dims,
               ds_data = replicate (prod_list dims) (fill_value sub),
               ds_attr = Map.empty\<rparr>))"

definition H5Dopen :: "hid_t \<Rightarrow> string \<Rightarrow> 'v world \<Rightarrow> dset_id \<times> 'v world" where
  "H5Dopen loc_id name w =
     (if lookup_dset w loc_id name = None then (H5D_invalid, h5_error w)
      else (H5D loc_id name, w))"

definition H5Dclose :: "'v substrate \<Rightarrow> dset_id \<Rightarrow> 'v world \<Rightarrow> int \<times> 'v world" where
  "H5Dclose sub dataset_id w =
     (if H5Dclose_fails sub \<or> dataset_id = H5D_invalid then (- 1, h5_error w) else (0, w))"

definition esio_field_close :: "'v substrate \<Rightarrow> dset_id \<Rightarrow> 'v world \<Rightarrow> esio_status \<times> 'v world" where
  "esio_field_close sub dataset_id w =
     (let (rc, w1) = H5Dclose sub dataset_id w
      in if rc < 0 then (ESIO_EFAILED, esio_error ''Error closing field'' ESIO_EFAILED w1)
         else (ESIO_SUCCESS, w1))"

text \<open>
  Selections. A new simple dataspace has every element selected, and adding a hyperslab
  with \<open>H5S_SELECT_OR\<close> to such a selection leaves it as it is; a stride of zero is
  rejected. A selection is enumerated in increasing (row-major) order of its elements.
\<close>

datatype selection = SelAll nat | SelList "nat list"

definition H5Sselect_hyperslab_OR :: "selection \<Rightarrow> nat \<Rightarrow> nat \<Rightarrow> nat \<Rightarrow> selection option" where
  "H5Sselect_hyperslab_OR sel start stride count =
     (if stride = 0 then None
      else case sel of
             SelAll n \<Rightarrow> Some (SelAll n)
           | SelList xs \<Rightarrow>
               Some (SelList (sort (remdups (xs @ map (\<lambda>i. start + i * stride) [0..<count])))))"

definition sel_elems :: "selection \<Rightarrow> nat list" where
  "sel_elems sel = (case sel of SelAll n \<Rightarrow> [0..<n] | SelList xs \<Rightarrow> xs)"

text \<open>
  \<open>H5Sselect_hyperslab\<close> with \<open>H5S_SELECT_SET\<close> on a three-dimensional dataspace: the
  contiguous block \<open>start, count\<close> as offsets into the row-major element list. A block
  that leaves the extents is rejected here (the driver may reject it only at the
  transfer; the layout kernel returns \<open>ESIO_EFAILED\<close> either way).
\<close>

definition block_elems :: "nat list \<Rightarrow> nat list \<Rightarrow> nat list \<Rightarrow> nat list option" where
  "block_elems dims start count =
     (case (dims, start, count) of
        ([nc, nb, na], [cs, bs, as], [cl, bl, al]) \<Rightarrow>
          if cs + cl \<le> nc \<and> bs + bl \<le> nb \<and> as + al \<le> na
          then Some (map (\<lambda>(c, b, a). (c * nb + b) * na + a)
                      (List.product [cs..<cs + cl] (List.product [bs..<bs + bl] [as..<as + al])))
          else None
      | _ \<Rightarrow> None)"

definition H5Dget_space :: "dset_id \<Rightarrow> 'v world \<Rightarrow> nat list option" where
  "H5Dget_space dset w =
     (case dset of
        H5D_invalid \<Rightarrow> None
      | H5D loc_id name \<Rightarrow> map_option ds_dims (lookup_dset w loc_id name))"

definition H5Dget_type :: "dset_id \<Rightarrow> 'v world \<Rightarrow> h5type option" where
  "H5Dget_type dset w =
     (case dset of
        H5D_invalid \<Rightarrow> None
      | H5D loc_id name \<Rightarrow> map_option ds_type (lookup_dset w loc_id name))"

text \<open>
  \<open>H5Dwrite\<close> and \<open>H5Dread\<close> between a memory selection and a selection of the file
  dataspace. The transfer pairs the selected elements in order and converts each one
  between the memory type and the stored type. It fails when the dataset is not there,
  when the two selections differ in size, when no conversion exists, or (writing) when
  the file is read-only. The buffer must hold the elements of the memory dataspace.
\<close>

definition H5Dwrite ::
  "'v substrate \<Rightarrow> dset_id \<Rightarrow> h5type \<Rightarrow> selection \<Rightarrow> nat list \<Rightarrow> 'v list \<Rightarrow> 'v world
     \<Rightarrow> int \<times> 'v world" where
  "H5Dwrite sub dset mem_type memspace fsel buf w =
     (case dset of
        H5D_invalid \<Rightarrow> (- 1, h5_error w)
      | H5D loc_id name \<Rightarrow>
          (case lookup_dset w loc_id name of
             None \<Rightarrow> (- 1, h5_error w)
           | Some ds \<Rightarrow>
               let msel = sel_elems memspace
               in if length msel \<noteq> length fsel \<or> \<not> H5Tfind mem_type (ds_type ds)
                     \<or> \<not> writable w loc_id
                  then (- 1, h5_error w)
                  else
                    (0, store_dset w loc_id name
                          (ds\<lparr>ds_data :=
                             fold (\<lambda>(m, f) d. d[f := convert sub mem_type (ds_type ds) (buf ! m)])
                               (zip msel fsel) (ds_data ds)\<rparr>))))"

definition H5Dread ::
  "'v substrate \<Rightarrow> dset_id \<Rightarrow> h5type \<Rightarrow> selection \<Rightarrow> nat list \<Rightarrow> 'v list \<Rightarrow> 'v world
     \<Rightarrow> int \<times> 'v list \<times> 'v world" where
  "H5Dread sub dset mem_type memspace fsel buf w =
     (case dset of
        H5D_invalid \<Rightarrow> (- 1, buf, h5_error w)
      | H5D loc_id name \<Rightarrow>
          (case lookup_dset w loc_id name of
             None \<Rightarrow> (- 1, buf, h5_error w)
           | Some ds \<Rightarrow>
               let msel = sel_elems memspace
               in if length msel \<noteq> length fsel \<or> \<not> H5Tfind (ds_type ds) mem_type
                  then (- 1, buf, h5_error w)
                  else
                    (0,
                     fold (\<lambda>(m, f) b. b[m := convert sub (ds_type ds) mem_type (ds_data ds ! f)])
                       (zip msel fsel) buf,
                     w)))"

subsection \<open>The layout-0 transfer kernel\<close>

datatype opfunc = OP_H5Dwrite | OP_H5Dread

text \<open>
  The double loop that adds one strided run per \<open>(k, j)\<close> to the memory selection; the
  pairs come in the order of the loops. The \<open>hsize_t\<close> values are the natural numbers of
  the \<open>int\<close> expressions, which are not negative for validated arguments.
\<close>

fun memspace_select ::
  "selection \<Rightarrow> int \<Rightarrow> int \<Rightarrow> int \<Rightarrow> int \<Rightarrow> (int \<times> int) list \<Rightarrow> selection option" where
  "memspace_select memspace cstride bstride astride alocal [] = Some memspace"
| "memspace_select memspace cstride bstride astride alocal ((k, j) # rest) =
     (case H5Sselect_hyperslab_OR memspace (nat (k * cstride + j * bstride)) (nat astride) (nat alocal) of
        None \<Rightarrow> None
      | Some memspace' \<Rightarrow> memspace_select memspace' cstride bstride astride alocal rest)"

text \<open>
  The kernel template of \<open>layout0.c\<close>, with \<open>OPFUNC\<close> as its first argument. It returns the
  status, the caller's buffer (changed by a read) and the outside state. Where the source
  asserts a valid dataspace identifier the model goes on as a build without assertions
  does: the next call of the driver fails.
\<close>

definition layout0_kernel ::
  "opfunc \<Rightarrow> 'v substrate \<Rightarrow> dset_id \<Rightarrow> 'v list
     \<Rightarrow> int \<Rightarrow> int \<Rightarrow> int \<Rightarrow> int \<Rightarrow> int \<Rightarrow> int \<Rightarrow> int \<Rightarrow> int \<Rightarrow> int \<Rightarrow> int \<Rightarrow> int \<Rightarrow> int
     \<Rightarrow> h5type \<Rightarrow> 'v world \<Rightarrow> esio_status \<times> 'v list \<times> 'v world" where
  "layout0_kernel op sub dset_id field
       cglobal cstart clocal cstride bglobal bstart blocal bstride aglobal astart alocal astride
       type_id w =
     (if H5Pset_dxpl_mpio_fails sub
      then (ESIO_EFAILED, field,
            esio_error ''Setting IO transfer mode failed'' ESIO_EFAILED (h5_error w))
      else
        let nelems = nat (clocal * cstride);
            memspace0 = SelAll nelems
        in case memspace_select memspace0 cstride bstride astride alocal
                  (List.product [0..clocal - 1] [0..blocal - 1]) of
             None \<Rightarrow>
               (ESIO_EFAILED, field,
                esio_error ''Selecting memory hyperslab failed'' ESIO_EFAILED (h5_error w))
           | Some memspace \<Rightarrow>
               (case Option.bind (H5Dget_space dset_id w)
                       (\<lambda>dims. block_elems dims [nat cstart, nat bstart, nat astart]
                                   [nat clocal, nat blocal, nat alocal]) of
                  None \<Rightarrow>
                    (ESIO_EFAILED, field,
                     esio_error ''Selecting file hyperslab failed'' ESIO_EFAILED (h5_error w))
                | Some filespace \<Rightarrow>
                    (case op of
                       OP_H5Dwrite \<Rightarrow>
                         let (status, w1) = H5Dwrite sub dset_id type_id memspace filespace field w
                         in if status < 0
                            then (ESIO_EFAILED, field,
                                  esio_error ''Operation failed'' ESIO_EFAILED w1)
                            else (ESIO_SUCCESS, field, w1)
                     | OP_H5Dread \<Rightarrow>
                         let (status, field', w1) =
                               H5Dread sub dset_id type_id memspace filespace field w
                         in if status < 0
                            then (ESIO_EFAILED, field',
                                  esio_error ''Operation failed'' ESIO_EFAILED w1)
                            else (ESIO_SUCCESS, field', w1))))"

subsection \<open>The layout table\<close>

text \<open>
  An entry of the table \<open>esio_layout\<close>: its tag and the three function pointers, with the
  argument lists of their calls in \<open>esio.c\<close>.
\<close>

record 'v layout =
  tag :: int
  filespace_creator :: "int \<Rightarrow> int \<Rightarrow> int \<Rightarrow> nat list option"
  field_writer ::
    "'v substrate \<Rightarrow> dset_id \<Rightarrow> 'v list
       \<Rightarrow> int \<Rightarrow> int \<Rightarrow> int \<Rightarrow> int \<Rightarrow> int \<Rightarrow> int \<Rightarrow> int \<Rightarrow> int \<Rightarrow> int
       \<Rightarrow> h5type \<Rightarrow> 'v world \<Rightarrow> esio_status \<times> 'v world"
  field_reader ::
    "'v substrate \<Rightarrow> dset_id \<Rightarrow> 'v list
       \<Rightarrow> int \<Rightarrow> int \<Rightarrow> int \<Rightarrow> int \<Rightarrow> int \<Rightarrow> int \<Rightarrow> int \<Rightarrow> int \<Rightarrow> int
       \<Rightarrow> h5type \<Rightarrow> 'v world \<Rightarrow> esio_status \<times> 'v list \<times> 'v world"

text \<open>
  Modelled from the spec: \<open>esio_layout0_filespace_creator\<close>, \<open>esio_layout0_field_writer\<close>
  and \<open>esio_layout0_field_reader\<close> with the argument lists of \<open>esio.c\<close>; they are defined in
  \<open>layout.c\<close>, which is not among the sources. Layout 0 stores a field as one contiguous
  three-dimensional dataset in \<open>(C, B, A)\<close> order, and a caller that gives no strides has a
  contiguous buffer: the stride of a direction is the product of the local counts of the
  faster directions and the number of components.
\<close>

definition esio_layout0_filespace_creator :: "int \<Rightarrow> int \<Rightarrow> int \<Rightarrow> nat list option" where
  "esio_layout0_filespace_creator nc nb na =
     (if nc < 0 \<or> nb < 0 \<or> na < 0 then None else Some [nat nc, nat nb, nat na])"

definition ncomponents_of :: "h5type \<Rightarrow> int" where
  "ncomponents_of type_id = (case type_id of H5T_ARRAY1 b n \<Rightarrow> int n | _ \<Rightarrow> 1)"

definition esio_layout0_field_writer ::
  "'v substrate \<Rightarrow> dset_id \<Rightarrow> 'v list
     \<Rightarrow> int \<Rightarrow> int \<Rightarrow> int \<Rightarrow> int \<Rightarrow> int \<Rightarrow> int \<Rightarrow> int \<Rightarrow> int \<Rightarrow> int
     \<Rightarrow> h5type \<Rightarrow> 'v world \<Rightarrow> esio_status \<times> 'v world" where
  "esio_layout0_field_writer sub dset_id field nc cst csz nb bst bsz na ast asz type_id w =
     (let astride = ncomponents_of type_id;
          bstride = asz * astride;
          cstride = bsz * bstride;
          (status, field', w') =
             layout0_kernel OP_H5Dwrite sub dset_id field
               nc cst csz cstride nb bst bsz bstride na ast asz astride type_id w
      in (status, w'))"

definition esio_layout0_field_reader ::
  "'v substrate \<Rightarrow> dset_id \<Rightarrow> 'v list
     \<Rightarrow> int \<Rightarrow> int \<Rightarrow> int \<Rightarrow> int \<Rightarrow> int \<Rightarrow> int \<Rightarrow> int \<Rightarrow> int \<Rightarrow> int
     \<Rightarrow> h5type \<Rightarrow> 'v world \<Rightarrow> esio_status \<times> 'v list \<times> 'v world" where
  "esio_layout0_field_reader sub dset_id field nc cst csz nb bst bsz na ast asz type_id w =
     (let astride = ncomponents_of type_id;
          bstride = asz * astride;
          cstride = bsz * bstride
      in layout0_kernel OP_H5Dread sub dset_id field
           nc cst csz cstride nb bst bsz bstride na ast asz astride type_id w)"

text \<open>The table \<open>esio_layout\<close> of \<open>esio.c\<close>: one entry, with tag 0.\<close>

definition esio_layout :: "'v layout list" where
  "esio_layout =
     [\<lparr>tag = 0,
       filespace_creator = esio_layout0_filespace_creator,
       field_writer = esio_layout0_field_writer,
       field_reader = esio_layout0_field_reader\<rparr>]"

text \<open>
  Reading the table at an index. The source indexes the array without a check; an index
  outside the table is \<open>None\<close> here, and the engine below then stops with \<open>ESIO_ESANITY\<close>.
\<close>

definition layout_at :: "'v layout list \<Rightarrow> int \<Rightarrow> 'v layout option" where
  "layout_at L i = (if 0 \<le> i \<and> i < int (length L) then Some (L ! nat i) else None)"

subsection \<open>The field transfer engine\<close>

definition esio_field_create ::
  "'v layout list \<Rightarrow> 'v substrate \<Rightarrow> esio_state_s \<Rightarrow> int \<Rightarrow> int \<Rightarrow> int \<Rightarrow> string \<Rightarrow> h5type
     \<Rightarrow> 'v world \<Rightarrow> dset_id \<times> 'v world" where
  "esio_field_create L sub s nc nb na name type_id w =
     (case layout_at L (layout_tag s) of
        None \<Rightarrow> (H5D_invalid, w)
      | Some lay \<Rightarrow>
          if tag lay \<noteq> layout_tag s
          then (H5D_invalid,
                esio_error ''SEVERE: Consistency error in esio_layout'' ESIO_ESANITY w)
          else
            (case filespace_creator lay nc nb na of
               None \<Rightarrow> (H5D_invalid, esio_error ''Unable to create filespace'' ESIO_ESANITY w)
             | Some filespace \<Rightarrow>
                 let (dset_id, w1) = H5Dcreate1 sub (file_id s) name type_id filespace w
                 in if dset_id = H5D_invalid
                    then (H5D_invalid,
                          esio_error ''Unable to create dataspace'' ESIO_ESANITY w1)
                    else
                      let (status, w2) =
                            esio_field_metadata_write (file_id s) name (layout_tag s)
                              nc nb na type_id w1
                      in if status < 0
                         then (H5D_invalid,
                               esio_error ''Unable to save field's ESIO metadata'' ESIO_EFAILED w2)
                         else (dset_id, w2)))"

text \<open>
  The argument checks that open \<open>esio_field_write_internal\<close> and
  \<open>esio_field_read_internal\<close>: the message of the first check that fails, in the order of
  the source. A \<open>NULL\<close> name or buffer is \<open>None\<close>.
\<close>

definition field_args_check ::
  "esio_state \<Rightarrow> string option \<Rightarrow> 'v list option
     \<Rightarrow> int \<Rightarrow> int \<Rightarrow> int \<Rightarrow> int \<Rightarrow> int \<Rightarrow> int \<Rightarrow> int \<Rightarrow> int \<Rightarrow> int \<Rightarrow> string option" where
  "field_args_check s name field nc cst csz nb bst bsz na ast asz =
     (case s of
        None \<Rightarrow> Some ''s == NULL''
      | Some st \<Rightarrow>
          if file_id st = - 1 then Some ''No file currently open''
          else if name = None then Some ''name == NULL''
          else if field = None then Some ''field == NULL''
          else if nc < 0 then Some ''nc < 0''
          else if cst < 0 then Some ''cst < 0''
          else if csz < 1 then Some ''csz < 1''
          else if nb < 0 then Some ''nb < 0''
          else if bst < 0 then Some ''bst < 0''
          else if bsz < 1 then Some ''bsz < 1''
          else if na < 0 then Some ''na < 0''
          else if ast < 0 then Some ''ast < 0''
          else if asz < 1 then Some ''asz < 1''
          else None)"

text \<open>
  The values of the five locals after \<open>esio_field_metadata_read\<close>; they are uninitialised
  in the source, and taken as 0 here, when the read did not populate them.
\<close>

definition locals_of :: "(int \<times> int \<times> int \<times> int \<times> int) option \<Rightarrow> int \<times> int \<times> int \<times> int \<times> int" where
  "locals_of out = (case out of None \<Rightarrow> (0, 0, 0, 0, 0) | Some t \<Rightarrow> t)"

definition esio_field_write_internal ::
  "'v layout list \<Rightarrow> 'v substrate \<Rightarrow> esio_state \<Rightarrow> string option \<Rightarrow> 'v list option
     \<Rightarrow> int \<Rightarrow> int \<Rightarrow> int \<Rightarrow> int \<Rightarrow> int \<Rightarrow> int \<Rightarrow> int \<Rightarrow> int \<Rightarrow> int
     \<Rightarrow> h5type \<Rightarrow> 'v world \<Rightarrow> esio_status \<times> 'v world" where
  "esio_field_write_internal L sub s name field nc cst csz nb bst bsz na ast asz type_id w =
     (case field_args_check s name field nc cst csz nb bst bsz na ast asz of
        Some msg \<Rightarrow> (ESIO_EINVAL, esio_error msg ESIO_EINVAL w)
      | None \<Rightarrow>
          let st = the s; nm = the name; buf = the field;
              (mstat, out, w1) = esio_field_metadata_read (int (length L)) (file_id st) nm w;
              (layout_tag', field_nc, field_nb, field_na, field_ncomponents) = locals_of out
          in if mstat < 0
             then
               let (dset_id, w2) = esio_field_create L sub st nc nb na nm type_id w1
               in (case layout_at L (layout_tag st) of
                     None \<Rightarrow> (ESIO_ESANITY, w2)
                   | Some lay \<Rightarrow>
                       let (wstat, w3) =
                             field_writer lay sub dset_id buf nc cst csz nb bst bsz na ast asz type_id w2;
                           (cstat, w4) = esio_field_close sub dset_id w3
                       in if wstat \<noteq> ESIO_SUCCESS
                          then (wstat, esio_error ''Error writing new field'' ESIO_EFAILED w4)
                          else (ESIO_SUCCESS, w4))
             else if nc \<noteq> field_nc
             then (ESIO_EINVAL, esio_error ''request nc mismatch with existing field'' ESIO_EINVAL w1)
             else if nb \<noteq> field_nb
             then (ESIO_EINVAL, esio_error ''request nb mismatch with existing field'' ESIO_EINVAL w1)
             else if na \<noteq> field_na
             then (ESIO_EINVAL, esio_error ''request na mismatch with existing field'' ESIO_EINVAL w1)
             else
               let (ncomponents, w2) = esio_type_ncomponents type_id w1
               in if ncomponents \<noteq> field_ncomponents
                  then (ESIO_EINVAL,
                        esio_error ''request ncomponents mismatch with existing field'' ESIO_EINVAL w2)
                  else
                    let (dset_id, w3) = H5Dopen (file_id st) nm w2
                    in (case H5Dget_type dset_id w3 of
                          None \<Rightarrow>
                            (ESIO_EFAILED, esio_error ''Unable to open dataset'' ESIO_EFAILED w3)
                        | Some field_type_id \<Rightarrow>
                            if \<not> H5Tfind type_id field_type_id
                            then (ESIO_EINVAL,
                                  esio_error ''request type not convertible to existing field type''
                                    ESIO_EINVAL w3)
                            else
                              (case layout_at L layout_tag' of
                                 None \<Rightarrow> (ESIO_ESANITY, w3)
                               | Some lay \<Rightarrow>
                                   let (wstat, w4) =
                                         field_writer lay sub dset_id buf
                                           nc cst csz nb bst bsz na ast asz type_id w3;
                                       (cstat, w5) = esio_field_close sub dset_id w4
                                   in if wstat \<noteq> ESIO_SUCCESS
                                      then (wstat,
                                            esio_error ''Error writing new field'' ESIO_EFAILED w5)
                                      else (ESIO_SUCCESS, w5))))"

text \<open>
  \<open>esio_field_read_internal\<close>. The status of the reader is not looked at by the source:
  once the dataset is open and the types convert, the call returns \<open>ESIO_SUCCESS\<close>.
\<close>

definition esio_field_read_internal ::
  "'v layout list \<Rightarrow> 'v substrate \<Rightarrow> esio_state \<Rightarrow> string option \<Rightarrow> 'v list option
     \<Rightarrow> int \<Rightarrow> int \<Rightarrow> int \<Rightarrow> int \<Rightarrow> int \<Rightarrow> int \<Rightarrow> int \<Rightarrow> int \<Rightarrow> int
     \<Rightarrow> h5type \<Rightarrow> 'v world \<Rightarrow> esio_status \<times> 'v list option \<times> 'v world" where
  "esio_field_read_internal L sub s name field nc cst csz nb bst bsz na ast asz type_id w =
     (case field_args_check s name field nc cst csz nb bst bsz na ast asz of
        Some msg \<Rightarrow> (ESIO_EINVAL, field, esio_error msg ESIO_EINVAL w)
      | None \<Rightarrow>
          let st = the s; nm = the name; buf = the field;
              (status, out, w1) = esio_field_metadata_read (int (length L)) (file_id st) nm w;
              (layout_tag', field_nc, field_nb, field_na, field_ncomponents) = locals_of out
          in if status < 0
             then (ESIO_EFAILED, field,
                   esio_error ''Unable to read field's ESIO metadata'' ESIO_EFAILED w1)
             else if nc \<noteq> field_nc
             then (ESIO_EINVAL, field,
                   esio_error ''field read request has incorrect nc'' ESIO_EINVAL w1)
             else if nb \<noteq> field_nb
             then (ESIO_EINVAL, field,
                   esio_error ''field read request has incorrect nb'' ESIO_EINVAL w1)
             else if na \<noteq> field_na
             then (ESIO_EINVAL, field,
                   esio_error ''field read request has incorrect na'' ESIO_EINVAL w1)
             else
               let (ncomponents, w2) = esio_type_ncomponents type_id w1
               in if ncomponents \<noteq> field_ncomponents
                  then (ESIO_EINVAL, field,
                        esio_error ''request ncomponents mismatch with existing field'' ESIO_EINVAL w2)
                  else
                    let (dset_id, w3) = H5Dopen (file_id st) nm w2
                    in (case H5Dget_type dset_id w3 of
                          None \<Rightarrow>
                            (ESIO_EFAILED, field,
                             esio_error ''Unable to open dataset'' ESIO_EFAILED w3)
                        | Some field_type_id \<Rightarrow>
                            if \<not> H5Tfind type_id field_type_id
                            then (ESIO_EINVAL, field,
                                  esio_error ''request type not convertible to existing field type''
                                    ESIO_EINVAL w3)
                            else
                              (case layout_at L layout_tag' of
                                 None \<Rightarrow> (ESIO_ESANITY, field, w3)
                               | Some lay \<Rightarrow>
                                   let (rstat, buf', w4) =
                                         field_reader lay sub dset_id buf
                                           nc cst csz nb bst bsz na ast asz type_id w3;
                                       (cstat, w5) = esio_field_close sub dset_id w4
                                   in (ESIO_SUCCESS, Some buf', w5))))"

text \<open>The public scalar entry points, generated by the macros of \<open>esio.c\<close>.\<close>

definition esio_field_write_double where
  "esio_field_write_double L sub s name field nc cst csz nb bst bsz na ast asz =
     esio_field_write_internal L sub s name field nc cst csz nb bst bsz na ast asz H5T_NATIVE_DOUBLE"

definition esio_field_write_float where
  "esio_field_write_float L sub s name field nc cst csz nb bst bsz na ast asz =
     esio_field_write_internal L sub s name field nc cst csz nb bst bsz na ast asz H5T_NATIVE_FLOAT"

definition esio_field_read_double where
  "esio_field_read_double L sub s name field nc cst csz nb bst bsz na ast asz =
     esio_field_read_internal L sub s name field nc cst csz nb bst bsz na ast asz H5T_NATIVE_DOUBLE"

definition esio_field_read_float where
  "esio_field_read_float L sub s name field nc cst csz nb bst bsz na ast asz =
     esio_field_read_internal L sub s name field nc cst csz nb bst bsz na ast asz H5T_NATIVE_FLOAT"

section \<open>What is stored for a field\<close>

text \<open>The metadata attribute stored with the dataset \<open>name\<close> of an open file, if any.\<close>

definition stored_metadata :: "'v world \<Rightarrow> hid_t \<Rightarrow> string \<Rightarrow> int list option" where
  "stored_metadata w loc_id name =
     (case lookup_dset w loc_id name of None \<Rightarrow> None | Some ds \<Rightarrow> ds_attr ds ''esio_metadata'')"



section \<open>Concrete states used in the examples\<close>

text \<open>
  A substrate without failures whose elements are integers and whose conversions leave
  an element as it is, and one in which every call that can fail does.
\<close>

definition ex_sub :: "int substrate" where
  "ex_sub =
     \<lparr>H5Pcreate_fails = False, H5Pset_fapl_mpio_fails = False, H5Fclose_fails = False,
      H5Dclose_fails = False, H5Pset_dxpl_mpio_fails = False,
      MPI_Comm_free_fails = False, MPI_Info_free_fails = False,
      fill_value = 0, convert = (\<lambda>s t x. x)\<rparr>"

definition ex_sub_failing :: "int substrate" where
  "ex_sub_failing =
     \<lparr>H5Pcreate_fails = True, H5Pset_fapl_mpio_fails = True, H5Fclose_fails = True,
      H5Dclose_fails = True, H5Pset_dxpl_mpio_fails = True,
      MPI_Comm_free_fails = True, MPI_Info_free_fails = True,
      fill_value = 0, convert = (\<lambda>s t x. x)\<rparr>"

text \<open>A handle with file 7 open and layout 0 active.\<close>

definition ex_handle :: esio_state_s where
  "ex_handle =
     \<lparr>comm = Some 1, comm_rank = 0, comm_size = 1, info = Some 1, file_id = 7, layout_tag = 0\<rparr>"

text \<open>
  The file \<open>a.h5\<close>, open for writing as identifier 7: once empty, and once holding the field
  \<open>u\<close> of doubles with extents \<open>(4, 3, 2)\<close> and the given layout tag in its metadata.
\<close>

definition ex_world_empty :: "int world" where
  "ex_world_empty =
     \<lparr>disk = [''a.h5'' \<mapsto> Map.empty], fopen = [7 \<mapsto> (''a.h5'', True)], next_id = 8,
      h5e_auto = Some 1, h5e_calls = 0, esio_log = []\<rparr>"

definition ex_field :: "int \<Rightarrow> int dataset" where
  "ex_field t =
     \<lparr>ds_type = H5T_NATIVE_DOUBLE, ds_dims = [4, 3, 2], ds_data = replicate 24 0,
      ds_attr = [''esio_metadata'' \<mapsto> [0, 0, 1, t, 4, 3, 2, 1]]\<rparr>"

definition ex_world_field :: "int \<Rightarrow> int world" where
  "ex_world_field t =
     \<lparr>disk = [''a.h5'' \<mapsto> [''u'' \<mapsto> ex_field t]], fopen = [7 \<mapsto> (''a.h5'', True)], next_id = 8,
      h5e_auto = Some 1, h5e_calls = 0, esio_log = []\<rparr>"

text \<open>
  A table with a second layout, whose reader hands back the buffer reversed, to tell the
  two entries apart.
\<close>

definition ex_layout2 :: "int layout list" where
  "ex_layout2 =
     esio_layout @
     [\<lparr>tag = 1,
       filespace_creator = esio_layout0_filespace_creator,
       field_writer = esio_layout0_field_writer,
       field_reader =
         (\<lambda>sub dset_id field nc cst csz nb bst bsz na ast asz type_id w.
            (ESIO_SUCCESS, rev field, w))\<rparr>]"

text \<open>The same field with a tenth integer in its metadata attribute, as a later format might write.\<close>

definition ex_world_long :: "int world" where
  "ex_world_long =
     \<lparr>disk = [''a.h5'' \<mapsto>
               [''u'' \<mapsto> (ex_field 0)\<lparr>ds_attr := [''esio_metadata'' \<mapsto> [0, 0, 1, 0, 4, 3, 2, 1, 0, 0]]\<rparr>]],
      fopen = [7 \<mapsto> (''a.h5'', True)], next_id = 8,
      h5e_auto = Some 1, h5e_calls = 0, esio_log = []\<rparr>"

text \<open>A buffer for the whole field \<open>u\<close>.\<close>

definition ex_buf :: "int list" where
  "ex_buf = [1, 2, 3, 4, 5, 6, 7, 8, 9, 10, 11, 12, 13, 14, 15, 16, 17, 18, 19, 20, 21, 22, 23, 24]"

section \<open>Properties of the restart rotation\<close>

subsection \<open>The index width\<close>

lemma ceil_log10_bounds:
  "1 < n \<Longrightarrow> 10 ^ (ceil_log10 n - 1) < n \<and> n \<le> 10 ^ ceil_log10 n"
proof (induction n rule: ceil_log10.induct)
  case (1 n)
  let ?m = "(n + 9) div 10"
  have c: "ceil_log10 n = Suc (ceil_log10 ?m)"
    using "1.prems" by (subst ceil_log10.simps) simp
  show ?case
  proof (cases "?m \<le> 1")
    case True
    then have "ceil_log10 ?m = 0" by (subst ceil_log10.simps) simp
    moreover from True have "n \<le> 10" by linarith
    ultimately show ?thesis using "1.prems" c by simp
  next
    case False
    then have m: "1 < ?m" by simp
    have ih: "10 ^ (ceil_log10 ?m - 1) < ?m \<and> ?m \<le> 10 ^ ceil_log10 ?m"
      using "1.IH" "1.prems" m by simp
    have pos: "0 < ceil_log10 ?m"
      using m by (subst ceil_log10.simps) simp
    then obtain c' where c': "ceil_log10 ?m = Suc c'" by (cases "ceil_log10 ?m") auto
    from ih c' have "(10::nat) ^ c' + 1 \<le> ?m" by simp
    then have "10 * (10::nat) ^ c' + 10 \<le> n + 9" by linarith
    then have lo: "(10::nat) ^ Suc c' < n" by simp
    from ih have "n \<le> 10 * 10 ^ ceil_log10 ?m" by linarith
    then show ?thesis using lo c c' by simp
  qed
qed

text \<open>
  The integer computation agrees with the real-valued \<open>\<lceil>log\<^sub>1\<^sub>0 n\<rceil>\<close>. The source evaluates
  \<open>ceil(log(n)/log(10))\<close> in double precision; the two can only differ where rounding
  moves the quotient across an integer, that is at exact powers of ten.
\<close>

lemma ceil_log10_log:
  assumes "1 \<le> n"
  shows "int (ceil_log10 n) = \<lceil>log 10 (real n)\<rceil>"
proof (cases "n = 1")
  case True
  then show ?thesis by (subst ceil_log10.simps) simp
next
  case False
  with assms have n: "1 < n" by simp
  have pos: "0 < ceil_log10 n" using n by (subst ceil_log10.simps) simp
  from ceil_log10_bounds [OF n] pos
  have b: "10 ^ (ceil_log10 n - 1) < n" "n \<le> 10 ^ (ceil_log10 n - 1 + 1)"
    by auto
  have "\<lceil>log (real 10) (real n)\<rceil> = int (ceil_log10 n - 1) + 1"
    using b by (intro ceiling_log_nat_eq_if) auto
  then show ?thesis using pos by simp
qed

text \<open>
  Claim C7, as amended. The index width of \<open>restart_rename\<close> is the length of the \<open>#\<close> run
  of the template, widened to \<open>\<lceil>log\<^sub>1\<^sub>0 (keep - 1)\<rceil>\<close> when that is larger (for \<open>keep > 1\<close>;
  for \<open>keep = 1\<close> it is widened to 1). For the template \<open>chk#\<close> and \<open>keep = 1000\<close> the
  width is 3.
\<close>

theorem restart_ndigits_widen:
  "(1 < keep \<longrightarrow>
      restart_ndigits run keep = max run (nat \<lceil>log 10 (of_int (keep - 1))\<rceil>))
   \<and> restart_ndigits run 1 = max run 1
   \<and> restart_ndigits (length ''#'') 1000 = 3"
proof (intro conjI impI)
  assume k: "1 < keep"
  then have "int (ceil_log10 (nat (keep - 1))) = \<lceil>log 10 (real (nat (keep - 1)))\<rceil>"
    by (intro ceil_log10_log) simp
  moreover have "real (nat (keep - 1)) = of_int (keep - 1)" using k by simp
  ultimately have "ceil_log10 (nat (keep - 1)) = nat \<lceil>log 10 (of_int (keep - 1))\<rceil>"
    by (metis nat_int)
  then show "restart_ndigits run keep = max run (nat \<lceil>log 10 (of_int (keep - 1))\<rceil>)"
    using k by (simp add: restart_ndigits_def Let_def max_def)
next
  show "restart_ndigits run 1 = max run 1"
    by (simp add: restart_ndigits_def Let_def max_def)
next
  show "restart_ndigits (length ''#'') 1000 = 3" by code_simp
qed

theorem restart_ndigits_widen_witness:
  "(1::int) < 1000 \<and> restart_ndigits 1 1000 = max 1 (nat \<lceil>log 10 (of_int (1000 - 1))\<rceil>)"
  using restart_ndigits_widen [of 1000 1] by simp

text \<open>
  Claim C7 as stated fails: for the template \<open>chk#\<close> and \<open>keep = 1000\<close> the width is not 4,
  and the source file is not renamed to \<open>chk0000\<close>.
\<close>

theorem restart_rename_widen_counterexample:
  "restart_ndigits (length ''#'') 1000 \<noteq> 4
   \<and> restart_rename (\<lambda>xs. xs) [(''new'', ''N'')] (Some ''new'') (Some ''chk#'') 1000
       = (ESIO_SUCCESS, [(''chk  0'', ''N'')])"
  by code_simp

subsection \<open>The rotation with three kept files\<close>

text \<open>
  Claim C3, evaluated. With the files \<open>chk000\<close>, \<open>chk001\<close> and the source \<open>new\<close>, the template
  \<open>chk###\<close> and \<open>keep = 3\<close>, the call succeeds, but the index is padded with blanks
  (\<open>%*d\<close>), not with zeros: the files afterwards are \<open>chk  0\<close>, \<open>chk  1\<close> and \<open>chk  2\<close>.
  (\<open>strverscmp\<close> lists \<open>chk000\<close> before \<open>chk001\<close>, so the sort leaves the scan as it is.)
\<close>

theorem restart_rename_keep3_blank_padded:
  "restart_rename (\<lambda>xs. xs)
     [(''chk000'', ''old0''), (''chk001'', ''old1''), (''new'', ''fresh'')]
     (Some ''new'') (Some ''chk###'') 3
   = (ESIO_SUCCESS, [(''chk  2'', ''old1''), (''chk  1'', ''old0''), (''chk  0'', ''fresh'')])"
  by code_simp

text \<open>
  The blank-padded names are not recognised by \<open>restart_nextindex\<close>, so a second rotation
  would not find them; where no padding is needed the rotation is as described.
\<close>

lemma blank_padded_name_not_matched:
  "restart_nextindex ''chk###'' ''chk  1'' (- 1) = 0"
  by code_simp

lemma restart_rename_keep3_no_padding:
  "restart_rename (\<lambda>xs. xs)
     [(''chk0'', ''old0''), (''chk1'', ''old1''), (''new'', ''fresh'')]
     (Some ''new'') (Some ''chk#'') 3
   = (ESIO_SUCCESS, [(''chk2'', ''old1''), (''chk1'', ''old0''), (''chk0'', ''fresh'')])"
  by code_simp

subsection \<open>restart\_nextindex on matching names\<close>

lemma cidx_append_left: "i < length p \<Longrightarrow> cidx (p @ t) i = p ! i"
  by (simp add: cidx_def nth_append)

lemma cidx_append_right: "cidx (p @ t) (length p + i) = cidx t i"
  by (simp add: cidx_def nth_append)

lemma cidx_nonzero: "NUL \<notin> set s \<Longrightarrow> i < length s \<Longrightarrow> cidx s i \<noteq> NUL"
  by (metis cidx_def nth_mem)

lemma cidx_end: "length s \<le> i \<Longrightarrow> cidx s i = NUL"
  by (simp add: cidx_def)

lemma fwd_scan_prefix:
  assumes "NUL \<notin> set p" "cidx t 0 \<noteq> cidx m 0 \<or> cidx t 0 = NUL" "i \<le> length p"
  shows "fwd_scan (p @ t) (p @ m) i = length p"
  using assms(3)
proof (induction "length p - i" arbitrary: i)
  case 0
  then have i: "i = length p" by simp
  have "cidx (p @ t) i = cidx t 0" "cidx (p @ m) i = cidx m 0"
    using cidx_append_right [of p _ 0] i by simp_all
  then show ?case using assms(2) i by (subst fwd_scan.simps) auto
next
  case (Suc n)
  then have i: "i < length p" by simp
  then have "cidx (p @ t) i = p ! i" "cidx (p @ m) i = p ! i" "p ! i \<noteq> NUL"
    using assms(1) by (auto simp: cidx_append_left dest: nth_mem)
  moreover have "fwd_scan (p @ t) (p @ m) (i + 1) = length p"
    using Suc i by (intro Suc.hyps(1)) auto
  ultimately show ?case by (subst fwd_scan.simps) simp
qed

lemma name_end_length:
  assumes "NUL \<notin> set name" "l \<le> length name"
  shows "name_end name l = length name"
  using assms(2)
proof (induction "length name - l" arbitrary: l)
  case 0
  then show ?case by (subst name_end.simps) (simp add: cidx_end)
next
  case (Suc n)
  then have "l < length name" by simp
  then have "cidx name l \<noteq> NUL" using assms(1) by (simp add: cidx_nonzero)
  moreover have "name_end name (l + 1) = length name"
    using Suc by (intro Suc.hyps(1)) auto
  ultimately show ?case by (subst name_end.simps) simp
qed

lemma last_hash_no_hash:
  assumes "NUL \<notin> set tmpl" "k \<le> length tmpl" "\<forall>x. k \<le> x \<and> x < length tmpl \<longrightarrow> tmpl ! x \<noteq> HASH"
  shows "last_hash tmpl j k = (j, length tmpl)"
  using assms(2,3)
proof (induction "length tmpl - k" arbitrary: k)
  case 0
  then show ?case by (subst last_hash.simps) (simp add: cidx_end)
next
  case (Suc n)
  then have k: "k < length tmpl" by simp
  then have "cidx tmpl k \<noteq> NUL" "cidx tmpl k \<noteq> HASH"
    using assms(1) Suc.prems cidx_nonzero [of tmpl k] by (auto simp: cidx_def)
  moreover have "last_hash tmpl j (k + 1) = (j, length tmpl)"
    using Suc k by (intro Suc.hyps(1)) auto
  ultimately show ?case by (subst last_hash.simps) simp
qed

lemma last_hash_run:
  assumes "NUL \<notin> set tmpl" "e \<le> length tmpl" "k \<le> e"
    and "\<forall>x. k \<le> x \<and> x < e \<longrightarrow> tmpl ! x = HASH"
    and "\<forall>x. e \<le> x \<and> x < length tmpl \<longrightarrow> tmpl ! x \<noteq> HASH"
  shows "last_hash tmpl j k = ((if k < e then e - 1 else j), length tmpl)"
  using assms(3,4)
proof (induction "e - k" arbitrary: k j)
  case 0
  then have "k = e" using assms(3) by simp
  then show ?case using last_hash_no_hash [OF assms(1), of e j] assms(2,5) by simp
next
  case (Suc n)
  then have k: "k < e" by simp
  then have c: "cidx tmpl k = HASH" "cidx tmpl k \<noteq> NUL"
    using assms(1,2) Suc.prems cidx_nonzero [of tmpl k] by (auto simp: cidx_def)
  have "last_hash tmpl k (k + 1) = ((if k + 1 < e then e - 1 else k), length tmpl)"
    using Suc k by (intro Suc.hyps(1)) auto
  then have "last_hash tmpl k (k + 1) = (e - 1, length tmpl)"
    using k by (auto split: if_splits)
  then show ?case using c k by (subst last_hash.simps) simp
qed

lemma single_run_hashes:
  assumes "\<forall>x. i \<le> x \<and> x < j \<longrightarrow> cidx tmpl x = HASH"
  shows "single_run tmpl i j"
  using assms
proof (induction "j - i" arbitrary: i)
  case 0
  then show ?case by (subst single_run.simps) simp
next
  case (Suc n)
  then have "i < j" by simp
  moreover have "cidx tmpl i = HASH" using Suc.prems \<open>i < j\<close> by simp
  moreover have "single_run tmpl (i + 1) j"
    using Suc by (intro Suc.hyps(1)) auto
  ultimately show ?case by (subst single_run.simps) simp
qed

lemma back_scan_suffix:
  assumes "length tmpl = a + length s" "length name = b + length s"
    and "\<forall>x < length s. tmpl ! (a + x) = s ! x \<and> name ! (b + x) = s ! x"
    and "j + 1 = a" "i < b" "m \<le> length s"
  shows "back_scan tmpl name i j (a + m) (b + m) = (j, b - 1)"
  using assms(6)
proof (induction m)
  case 0
  have "\<not> j < a - 1" using assms(4) by simp
  then have "back_scan tmpl name i j (a - 1) (b - 1) = (a - 1, b - 1)"
    using assms(4) by (subst back_scan.simps) simp
  moreover have "cidx tmpl a = cidx name b"
  proof (cases "length s = 0")
    case True
    then show ?thesis using assms(1,2) by (simp add: cidx_def)
  next
    case False
    then show ?thesis using assms(1,2) assms(3) [rule_format, of 0] by (simp add: cidx_def)
  qed
  ultimately show ?case
    using assms(4,5) by (subst back_scan.simps) auto
next
  case (Suc m)
  have eq: "cidx tmpl (a + Suc m) = cidx name (b + Suc m)"
  proof (cases "Suc m < length s")
    case True
    then show ?thesis using assms(1,2) assms(3) [rule_format, of "Suc m"] by (simp add: cidx_def)
  next
    case False
    then have "Suc m = length s" using Suc.prems by simp
    then show ?thesis using assms(1,2) by (simp add: cidx_def)
  qed
  have "back_scan tmpl name i j (a + m) (b + m) = (j, b - 1)"
    using Suc by simp
  then show ?case
    using eq assms(4,5) by (subst back_scan.simps) simp
qed

lemma isdigit_facts:
  assumes "isdigit c"
  shows "\<not> isspace c" "c \<noteq> CHR ''-''" "c \<noteq> CHR ''+''" "c \<noteq> HASH" "c \<noteq> NUL"
  using assms by (auto simp: isdigit_def isspace_def HASH_def NUL_def)

lemma strtoul_digits:
  assumes "d \<noteq> []" "\<forall>c \<in> set d. isdigit c" "s = [] \<or> \<not> isdigit (hd s)"
  shows "strtoul (d @ s) = ((if ULONG_MAX < dec_value d then ULONG_MAX else dec_value d), length d)"
proof -
  obtain c d' where d: "d = c # d'" using assms(1) by (cases d) auto
  then have c: "isdigit c" using assms(2) by simp
  have tw: "takeWhile isdigit (d @ s) = d"
  proof -
    have "takeWhile isdigit s = []" using assms(3) by (cases s) auto
    then show ?thesis using assms(2) by (simp add: takeWhile_append2)
  qed
  show ?thesis
    using isdigit_facts [OF c] tw assms(1)
    by (simp add: strtoul_def d Let_def)
qed

lemma nth_tmpl:
  "x < length p \<Longrightarrow> (p @ replicate n HASH @ s) ! x = p ! x"
  "length p \<le> x \<Longrightarrow> x < length p + n \<Longrightarrow> (p @ replicate n HASH @ s) ! x = HASH"
  "length p + n \<le> x \<Longrightarrow> x < length p + n + length s \<Longrightarrow>
     (p @ replicate n HASH @ s) ! x = s ! (x - length p - n)"
  by (auto simp: nth_append)

text \<open>
  When the template is a prefix, a run of \<open>#\<close> and a suffix without further \<open>#\<close>, the
  suffix does not begin with a digit, and the name is the template with the run replaced
  by a non-empty string of digits, the result is their value plus one, or \<open>errval\<close> when
  that does not fit an \<open>int\<close>.
\<close>

lemma restart_nextindex_match:
  assumes "NUL \<notin> set p" "NUL \<notin> set s" "HASH \<notin> set s" "0 < n"
    and "d \<noteq> []" "\<forall>c \<in> set d. isdigit c" "s = [] \<or> \<not> isdigit (hd s)"
  shows "restart_nextindex (p @ replicate n HASH @ s) (p @ d @ s) errval
         = (if INT_MAX - 1 < dec_value d then errval else dec_value d + 1)"
proof -
  let ?tmpl = "p @ replicate n HASH @ s" and ?name = "p @ d @ s"
  let ?i = "length p" and ?j = "length p + n - 1"
  obtain c d' where d: "d = c # d'" using assms(5) by (cases d) auto
  then have c: "isdigit c" using assms(6) by simp
  obtain n' where n: "n = Suc n'" using assms(4) by (cases n) auto
  have nul_t: "NUL \<notin> set ?tmpl"
    using assms(1,2) by (auto simp: HASH_def NUL_def)
  have nul_n: "NUL \<notin> set ?name"
    using assms(1,2,6) isdigit_facts(5) by auto
  have fs: "fwd_scan ?tmpl ?name 0 = ?i"
    by (rule fwd_scan_prefix)
       (use assms(1) isdigit_facts(4) [OF c] in \<open>auto simp: cidx_def d n\<close>)
  have ti: "cidx ?tmpl ?i = HASH"
    using cidx_append_right [of p "replicate n HASH @ s" 0] by (simp add: cidx_def n)
  have ni: "cidx ?name ?i = c"
    using cidx_append_right [of p "d @ s" 0] by (simp add: cidx_def d)
  have lh: "last_hash ?tmpl ?i (?i + 1) = (?j, length ?tmpl)"
  proof -
    have "last_hash ?tmpl ?i (?i + 1)
          = ((if ?i + 1 < ?i + n then ?i + n - 1 else ?i), length ?tmpl)"
    proof (rule last_hash_run [OF nul_t])
      show "\<forall>x. length p + n \<le> x \<and> x < length ?tmpl \<longrightarrow> ?tmpl ! x \<noteq> HASH"
      proof (intro allI impI)
        fix x assume x: "length p + n \<le> x \<and> x < length ?tmpl"
        then have "?tmpl ! x = s ! (x - length p - n)" by (intro nth_tmpl(3)) auto
        moreover have "s ! (x - length p - n) \<in> set s" using x by (intro nth_mem) auto
        ultimately show "?tmpl ! x \<noteq> HASH" using assms(3) by metis
      qed
    qed (use assms(4) in \<open>auto simp: nth_tmpl(2)\<close>)
    then show ?thesis using assms(4) by (auto split: if_splits)
  qed
  have ne: "name_end ?name (?i + 1) = length ?name"
    by (rule name_end_length [OF nul_n]) (simp add: d)
  have bs: "back_scan ?tmpl ?name ?i ?j (length ?tmpl) (length ?name) = (?j, ?i + length d - 1)"
  proof -
    have "back_scan ?tmpl ?name ?i ?j (length p + n + length s) (length p + length d + length s)
          = (?j, length p + length d - 1)"
      by (rule back_scan_suffix [where s = s])
         (use assms(4,5) in \<open>auto simp: nth_append\<close>)
    then show ?thesis by (simp add: add.assoc)
  qed
  have tj: "cidx ?tmpl ?j = HASH"
  proof -
    have "length p \<le> ?j" "?j < length p + n" using assms(4) by simp_all
    then have "?tmpl ! ?j = HASH" by (rule nth_tmpl(2))
    moreover have "?j < length ?tmpl" using assms(4) by simp
    ultimately show ?thesis by (simp add: cidx_def)
  qed
  have st: "strtoul (drop ?i ?name)
            = ((if ULONG_MAX < dec_value d then ULONG_MAX else dec_value d), length d)"
    using strtoul_digits [OF assms(5,6,7)] by simp
  have sr: "single_run ?tmpl ?i ?j"
    by (rule single_run_hashes) (use assms(4) in \<open>auto simp: cidx_def nth_tmpl(2)\<close>)
  have len: "?i + length d = ?i + length d - 1 + 1" using assms(5) by (cases d) auto
  show ?thesis
    unfolding restart_nextindex_def fs Let_def ti ni lh prod.case ne bs tj st
    using c sr len isdigit_facts(5) [OF c]
    by (auto simp: HASH_def NUL_def INT_MAX_def ULONG_MAX_def)
qed

text \<open>
  A name that goes along with the template up to some place before the run of \<open>#\<close> and
  then differs, and a name that has the whole prefix and then neither a digit nor \<open>#\<close>,
  are mismatches: the result is 0.
\<close>

lemma restart_nextindex_prefix_differs:
  assumes "NUL \<notin> set q" "c \<noteq> NUL" "c \<noteq> HASH" "m = [] \<or> hd m \<noteq> c"
  shows "restart_nextindex (q @ c # t) (q @ m) errval = 0"
proof -
  have m: "cidx m 0 \<noteq> c" using assms(2,4) by (cases m) (auto simp: cidx_def)
  have fs: "fwd_scan (q @ c # t) (q @ m) 0 = length q"
    by (rule fwd_scan_prefix) (use assms(1) m in \<open>auto simp: cidx_def\<close>)
  have "cidx (q @ c # t) (length q) = c"
    using cidx_append_right [of q "c # t" 0] by (simp add: cidx_def)
  then show ?thesis
    using assms(2,3) by (simp add: restart_nextindex_def fs Let_def)
qed

lemma restart_nextindex_no_digit:
  assumes "NUL \<notin> set p" "0 < n" "m = [] \<or> (hd m \<noteq> HASH \<and> \<not> isdigit (hd m))"
  shows "restart_nextindex (p @ replicate n HASH @ s) (p @ m) errval = 0"
proof -
  obtain n' where n: "n = Suc n'" using assms(2) by (cases n) auto
  have m: "cidx m 0 \<noteq> HASH" "\<not> isdigit (cidx m 0)"
    using assms(3) by (cases m; auto simp: cidx_def HASH_def NUL_def isdigit_def)+
  have fs: "fwd_scan (p @ replicate n HASH @ s) (p @ m) 0 = length p"
    by (rule fwd_scan_prefix) (use assms(1) m in \<open>auto simp: cidx_def n\<close>)
  have ti: "cidx (p @ replicate n HASH @ s) (length p) = HASH"
    using cidx_append_right [of p "replicate n HASH @ s" 0] by (simp add: cidx_def n)
  have ni: "cidx (p @ m) (length p) = cidx m 0"
    using cidx_append_right [of p m 0] by simp
  have "HASH \<noteq> NUL" by (simp add: HASH_def NUL_def)
  then show ?thesis
    unfolding restart_nextindex_def fs Let_def ti ni using m by simp
qed

subsection \<open>restart\_nextindex on concrete names\<close>

text \<open>
  Claim C4, evaluated. The template \<open>chk#9\<close> has one run of \<open>#\<close>, and substituting the digit
  string \<open>5\<close> gives \<open>chk59\<close>; the result is 0, not 6, because \<open>strtoul\<close> reads on into the
  suffix and the end-pointer comparison then reports a mismatch.
\<close>

theorem restart_nextindex_digit_suffix:
  "restart_nextindex ''chk#9'' ''chk59'' (- 1) = 0"
  by code_simp

text \<open>
  Claim C10, evaluated. The first \<open>#\<close> of the template \<open>chk##\<close> is at position 3, where the
  name \<open>chk#5\<close> has \<open>#\<close>, which is not a decimal digit; the result is 6, not 0, because the
  first loop steps over a \<open>#\<close> that the name shares with the template.
\<close>

theorem restart_nextindex_hash_in_name:
  "restart_nextindex ''chk##'' ''chk#5'' (- 1) = 6"
  by code_simp

lemma restart_nextindex_name_is_template:
  "restart_nextindex ''chk#'' ''chk#'' (- 1) = - 1"
  by code_simp

lemma restart_nextindex_examples:
  "restart_nextindex ''chk###'' ''chk001'' (- 1) = 2"
  "restart_nextindex ''chk#.h5'' ''chk+5.h5'' (- 1) = 0"
  "restart_nextindex ''chk#.h5'' ''chk2147483646.h5'' (- 1) = 2147483647"
  "restart_nextindex ''chk#.h5'' ''chk2147483647.h5'' (- 1) = - 1"
  "restart_nextindex ''chk#.h5'' ''chk99999999999999999999999.h5'' (- 1) = - 1"
  by code_simp+

section \<open>Properties of the handle lifecycle\<close>

lemma esio_file_close_twice:
  assumes "esio_file_close sub (Some st) w = (ESIO_SUCCESS, s', w')"
  shows "fst (esio_file_close sub s' w') = ESIO_EINVAL"
  using assms
  by (auto simp: esio_file_close_def Let_def split: if_splits prod.splits)

text \<open>
  Claim C6, evaluated. Closing the open file of a handle succeeds; closing again, with no
  create or open in between, reports \<open>No file currently open\<close> to the error hook and
  returns \<open>ESIO_EINVAL\<close>, where the test \<open>file_create_and_open\<close> requires 0.
\<close>

theorem esio_file_close_twice_einval:
  "(let (r1, s1, w1) = esio_file_close ex_sub (Some ex_handle) ex_world_empty;
        (r2, s2, w2) = esio_file_close ex_sub s1 w1
    in (r1, r2, esio_log w2))
   = (ESIO_SUCCESS, ESIO_EINVAL, [(''No file currently open'', ESIO_EINVAL)])"
  by code_simp

text \<open>
  Claim C9. Finalizing the \<open>NULL\<close> handle returns \<open>ESIO_SUCCESS\<close> and changes nothing, so
  the error hook is not called; finalizing any other handle returns \<open>ESIO_SUCCESS\<close>
  whatever the forced close and the release of the communicator and the info object
  report.
\<close>

theorem esio_finalize_returns_success:
  "esio_finalize sub None w = (ESIO_SUCCESS, w)
   \<and> fst (esio_finalize sub (Some st) w) = ESIO_SUCCESS"
  by (simp add: esio_finalize_def Let_def)

theorem esio_finalize_returns_success_witness:
  "fst (esio_finalize ex_sub_failing (Some ex_handle) ex_world_empty) = ESIO_SUCCESS
   \<and> map snd (esio_log (snd (esio_finalize ex_sub_failing (Some ex_handle) ex_world_empty)))
       = [ESIO_EFAILED, ESIO_EFAILED, ESIO_EFAILED]"
proof
  show "fst (esio_finalize ex_sub_failing (Some ex_handle) ex_world_empty) = ESIO_SUCCESS"
    using esio_finalize_returns_success [of ex_sub_failing ex_world_empty ex_handle]
    by (rule conjunct2)
  show "map snd (esio_log (snd (esio_finalize ex_sub_failing (Some ex_handle) ex_world_empty)))
       = [ESIO_EFAILED, ESIO_EFAILED, ESIO_EFAILED]"
    by code_simp
qed

section \<open>Properties of the metadata probe\<close>

lemma stored_metadata_h5e_auto [simp]:
  "stored_metadata (w\<lparr>h5e_auto := x\<rparr>) loc_id name = stored_metadata w loc_id name"
  by (simp add: stored_metadata_def lookup_dset_def split: option.splits prod.splits)


lemma H5LTget_attribute_int_present:
  "stored_metadata w loc_id name = Some vals \<Longrightarrow>
   H5LTget_attribute_int loc_id name ''esio_metadata'' buf w
     = (0, take (length buf) (vals @ drop (length vals) buf), w)"
  by (auto simp: stored_metadata_def H5LTget_attribute_int_def split: option.splits)


lemma metadata_read_present:
  assumes "stored_metadata w loc_id name = Some [v0, v1, v2, t, c, b, a, k]"
  shows "esio_field_metadata_read n loc_id name w
         = (0, Some (t, c, b, a, k),
            if t < 0 \<or> n \<le> t
            then esio_error ''ESIO metadata contains unknown layout_tag'' ESIO_ESANITY w else w)"
  using assms
  by (simp add: esio_field_metadata_read_def H5LTget_attribute_int_present
        Let_def ESIO_FIELD_METADATA_SIZE_def nth_append)



lemma stored_metadata_examples:
  "stored_metadata ex_world_empty 7 ''u'' = None"
  "stored_metadata (ex_world_field t) 7 ''u'' = Some [0, 0, 1, t, 4, 3, 2, 1]"
  "stored_metadata ex_world_long 7 ''u'' = Some [0, 0, 1, 0, 4, 3, 2, 1, 0, 0]"
  by (simp_all add: stored_metadata_def lookup_dset_def ex_world_empty_def ex_world_field_def
        ex_world_long_def ex_field_def)




section \<open>Properties of the field transfer engine\<close>

subsection \<open>Dispatch through the layout table\<close>

lemma field_args_check_layout_tag [simp]:
  "field_args_check (Some (st\<lparr>layout_tag := t'\<rparr>)) name field nc cst csz nb bst bsz na ast asz
   = field_args_check (Some st) name field nc cst csz nb bst bsz na ast asz"
  by (simp add: field_args_check_def)

lemma read_ignores_active_tag:
  "esio_field_read_internal L sub (Some (st\<lparr>layout_tag := t'\<rparr>)) name field
       nc cst csz nb bst bsz na ast asz type_id w
   = esio_field_read_internal L sub (Some st) name field
       nc cst csz nb bst bsz na ast asz type_id w"
  by (simp add: esio_field_read_internal_def Let_def split: option.splits prod.splits)

lemma write_existing_ignores_active_tag:
  assumes "0 \<le> fst (esio_field_metadata_read (int (length L)) (file_id st) nm w)"
  shows "esio_field_write_internal L sub (Some (st\<lparr>layout_tag := t'\<rparr>)) (Some nm) field
           nc cst csz nb bst bsz na ast asz type_id w
         = esio_field_write_internal L sub (Some st) (Some nm) field
             nc cst csz nb bst bsz na ast asz type_id w"
proof -
  obtain mstat out w1
    where m: "esio_field_metadata_read (int (length L)) (file_id st) nm w = (mstat, out, w1)"
    by (cases "esio_field_metadata_read (int (length L)) (file_id st) nm w") auto
  with assms have "\<not> mstat < 0" by simp
  then show ?thesis
    by (simp add: esio_field_write_internal_def m Let_def split: option.splits prod.splits)
qed

lemma H5Dopen_present:
  "lookup_dset w loc_id name = Some ds \<Longrightarrow> H5Dopen loc_id name w = (H5D loc_id name, w)"
  by (simp add: H5Dopen_def)

lemma H5Dget_type_present:
  "lookup_dset w loc_id name = Some ds \<Longrightarrow> H5Dget_type (H5D loc_id name) w = Some (ds_type ds)"
  by (simp add: H5Dget_type_def)

lemma read_dispatch:
  assumes "field_args_check (Some st) (Some nm) (Some buf) nc cst csz nb bst bsz na ast asz = None"
    and "stored_metadata w (file_id st) nm = Some [va, vb, vc, t, nc, nb, na, k]"
    and "0 \<le> t" "t < int (length L)"
    and "esio_type_ncomponents type_id w = (k, w)"
    and "lookup_dset w (file_id st) nm = Some ds"
    and "H5Tfind type_id (ds_type ds)"
  shows "esio_field_read_internal L sub (Some st) (Some nm) (Some buf)
           nc cst csz nb bst bsz na ast asz type_id w
         = (let (rstat, buf', w4) =
                  field_reader (L ! nat t) sub (H5D (file_id st) nm) buf
                    nc cst csz nb bst bsz na ast asz type_id w;
                (cstat, w5) = esio_field_close sub (H5D (file_id st) nm) w4
            in (ESIO_SUCCESS, Some buf', w5))"
  using assms
  by (simp add: esio_field_read_internal_def metadata_read_present locals_of_def
        H5Dopen_present H5Dget_type_present layout_at_def)

lemma write_dispatch:
  assumes "field_args_check (Some st) (Some nm) (Some buf) nc cst csz nb bst bsz na ast asz = None"
    and "stored_metadata w (file_id st) nm = Some [va, vb, vc, t, nc, nb, na, k]"
    and "0 \<le> t" "t < int (length L)"
    and "esio_type_ncomponents type_id w = (k, w)"
    and "lookup_dset w (file_id st) nm = Some ds"
    and "H5Tfind type_id (ds_type ds)"
  shows "esio_field_write_internal L sub (Some st) (Some nm) (Some buf)
           nc cst csz nb bst bsz na ast asz type_id w
         = (let (wstat, w4) =
                  field_writer (L ! nat t) sub (H5D (file_id st) nm) buf
                    nc cst csz nb bst bsz na ast asz type_id w;
                (cstat, w5) = esio_field_close sub (H5D (file_id st) nm) w4
            in if wstat \<noteq> ESIO_SUCCESS
               then (wstat, esio_error ''Error writing new field'' ESIO_EFAILED w5)
               else (ESIO_SUCCESS, w5))"
  using assms
  by (simp add: esio_field_write_internal_def metadata_read_present locals_of_def
        H5Dopen_present H5Dget_type_present layout_at_def)

text \<open>
  Claim C2. A read never looks at the active layout tag of the handle, and neither does a
  write to a field that already exists: changing the active tag leaves both calls as they
  are. Once the checks of such a transfer have passed, the reader or writer that is called
  is the entry of the table at the layout tag stored in the field's metadata.
\<close>

theorem stored_tag_governs_transfer:
  "esio_field_read_internal L sub (Some (st\<lparr>layout_tag := t'\<rparr>)) name field
       nc cst csz nb bst bsz na ast asz type_id w
     = esio_field_read_internal L sub (Some st) name field
         nc cst csz nb bst bsz na ast asz type_id w
   \<and> (0 \<le> fst (esio_field_metadata_read (int (length L)) (file_id st) nm w) \<longrightarrow>
        esio_field_write_internal L sub (Some (st\<lparr>layout_tag := t'\<rparr>)) (Some nm) field
            nc cst csz nb bst bsz na ast asz type_id w
          = esio_field_write_internal L sub (Some st) (Some nm) field
              nc cst csz nb bst bsz na ast asz type_id w)
   \<and> (field_args_check (Some st) (Some nm) (Some buf) nc cst csz nb bst bsz na ast asz = None
        \<and> stored_metadata w (file_id st) nm = Some [va, vb, vc, t, nc, nb, na, k]
        \<and> 0 \<le> t \<and> t < int (length L)
        \<and> esio_type_ncomponents type_id w = (k, w)
        \<and> lookup_dset w (file_id st) nm = Some ds
        \<and> H5Tfind type_id (ds_type ds) \<longrightarrow>
        esio_field_read_internal L sub (Some st) (Some nm) (Some buf)
            nc cst csz nb bst bsz na ast asz type_id w
          = (let (rstat, buf', w4) =
                   field_reader (L ! nat t) sub (H5D (file_id st) nm) buf
                     nc cst csz nb bst bsz na ast asz type_id w;
                 (cstat, w5) = esio_field_close sub (H5D (file_id st) nm) w4
             in (ESIO_SUCCESS, Some buf', w5))
        \<and> esio_field_write_internal L sub (Some st) (Some nm) (Some buf)
            nc cst csz nb bst bsz na ast asz type_id w
          = (let (wstat, w4) =
                   field_writer (L ! nat t) sub (H5D (file_id st) nm) buf
                     nc cst csz nb bst bsz na ast asz type_id w;
                 (cstat, w5) = esio_field_close sub (H5D (file_id st) nm) w4
             in if wstat \<noteq> ESIO_SUCCESS
                then (wstat, esio_error ''Error writing new field'' ESIO_EFAILED w5)
                else (ESIO_SUCCESS, w5)))"
proof (intro conjI impI)
  show "esio_field_read_internal L sub (Some (st\<lparr>layout_tag := t'\<rparr>)) name field
          nc cst csz nb bst bsz na ast asz type_id w
        = esio_field_read_internal L sub (Some st) name field
            nc cst csz nb bst bsz na ast asz type_id w"
    by (rule read_ignores_active_tag)
next
  assume "0 \<le> fst (esio_field_metadata_read (int (length L)) (file_id st) nm w)"
  then show "esio_field_write_internal L sub (Some (st\<lparr>layout_tag := t'\<rparr>)) (Some nm) field
               nc cst csz nb bst bsz na ast asz type_id w
             = esio_field_write_internal L sub (Some st) (Some nm) field
                 nc cst csz nb bst bsz na ast asz type_id w"
    by (rule write_existing_ignores_active_tag)
next
  assume a: "field_args_check (Some st) (Some nm) (Some buf) nc cst csz nb bst bsz na ast asz = None
        \<and> stored_metadata w (file_id st) nm = Some [va, vb, vc, t, nc, nb, na, k]
        \<and> 0 \<le> t \<and> t < int (length L)
        \<and> esio_type_ncomponents type_id w = (k, w)
        \<and> lookup_dset w (file_id st) nm = Some ds
        \<and> H5Tfind type_id (ds_type ds)"
  then show "esio_field_read_internal L sub (Some st) (Some nm) (Some buf)
            nc cst csz nb bst bsz na ast asz type_id w
          = (let (rstat, buf', w4) =
                   field_reader (L ! nat t) sub (H5D (file_id st) nm) buf
                     nc cst csz nb bst bsz na ast asz type_id w;
                 (cstat, w5) = esio_field_close sub (H5D (file_id st) nm) w4
             in (ESIO_SUCCESS, Some buf', w5))"
    by (intro read_dispatch) auto
  from a show "esio_field_write_internal L sub (Some st) (Some nm) (Some buf)
            nc cst csz nb bst bsz na ast asz type_id w
          = (let (wstat, w4) =
                   field_writer (L ! nat t) sub (H5D (file_id st) nm) buf
                     nc cst csz nb bst bsz na ast asz type_id w;
                 (cstat, w5) = esio_field_close sub (H5D (file_id st) nm) w4
             in if wstat \<noteq> ESIO_SUCCESS
                then (wstat, esio_error ''Error writing new field'' ESIO_EFAILED w5)
                else (ESIO_SUCCESS, w5))"
    by (intro write_dispatch) auto
qed

lemma esio_type_ncomponents_scalar:
  "type_id \<in> {H5T_NATIVE_DOUBLE, H5T_NATIVE_FLOAT, H5T_NATIVE_INT} \<Longrightarrow>
   esio_type_ncomponents type_id w = (1, w)"
  by (auto simp: esio_type_ncomponents_def)

lemma lookup_dset_examples:
  "lookup_dset ex_world_empty 7 ''u'' = None"
  "lookup_dset (ex_world_field t) 7 ''u'' = Some (ex_field t)"
  by (simp_all add: lookup_dset_def ex_world_empty_def ex_world_field_def)

text \<open>
  The witness: the field \<open>u\<close> is stored with layout tag 1 in a table of two layouts. With
  either active tag the read goes through the reader of layout 1, which reverses the
  buffer, and a write to \<open>u\<close> is the same call under either active tag.
\<close>

theorem stored_tag_governs_transfer_witness:
  "0 \<le> fst (esio_field_metadata_read (int (length ex_layout2)) (file_id ex_handle) ''u''
             (ex_world_field 1))
   \<and> layout_tag ex_handle = 0
   \<and> esio_field_read_internal ex_layout2 ex_sub (Some (ex_handle\<lparr>layout_tag := 1\<rparr>))
        (Some ''u'') (Some ex_buf) 4 0 4 3 0 3 2 0 2 H5T_NATIVE_DOUBLE (ex_world_field 1)
      = (ESIO_SUCCESS, Some (rev ex_buf), ex_world_field 1)
   \<and> esio_field_read_internal ex_layout2 ex_sub (Some ex_handle)
        (Some ''u'') (Some ex_buf) 4 0 4 3 0 3 2 0 2 H5T_NATIVE_DOUBLE (ex_world_field 1)
      = (ESIO_SUCCESS, Some (rev ex_buf), ex_world_field 1)
   \<and> esio_field_write_internal ex_layout2 ex_sub (Some (ex_handle\<lparr>layout_tag := 1\<rparr>))
        (Some ''u'') (Some ex_buf) 4 0 4 3 0 3 2 0 2 H5T_NATIVE_DOUBLE (ex_world_field 1)
      = esio_field_write_internal ex_layout2 ex_sub (Some ex_handle)
          (Some ''u'') (Some ex_buf) 4 0 4 3 0 3 2 0 2 H5T_NATIVE_DOUBLE (ex_world_field 1)"
proof -
  have m: "esio_field_metadata_read (int (length ex_layout2)) (file_id ex_handle) ''u''
             (ex_world_field 1) = (0, Some (1, 4, 3, 2, 1), ex_world_field 1)"
    by (simp add: metadata_read_present [OF stored_metadata_examples(2)] ex_handle_def
          ex_layout2_def esio_layout_def)
  have c: "field_args_check (Some ex_handle) (Some ''u'') (Some ex_buf) 4 0 4 3 0 3 2 0 2 = None"
    by (simp add: field_args_check_def ex_handle_def)
  have r: "field_reader (ex_layout2 ! nat 1) ex_sub (H5D 7 ''u'') ex_buf 4 0 4 3 0 3 2 0 2
             H5T_NATIVE_DOUBLE (ex_world_field 1) = (ESIO_SUCCESS, rev ex_buf, ex_world_field 1)"
    by (simp add: ex_layout2_def esio_layout_def)
  have cl: "esio_field_close ex_sub (H5D 7 ''u'') (ex_world_field 1) = (ESIO_SUCCESS, ex_world_field 1)"
    by (simp add: esio_field_close_def H5Dclose_def ex_sub_def)
  note t = stored_tag_governs_transfer [where L = ex_layout2 and sub = ex_sub and st = ex_handle
      and t' = 1 and name = "Some ''u''" and nm = "''u''" and field = "Some ex_buf" and buf = ex_buf
      and nc = 4 and cst = 0 and csz = 4 and nb = 3 and bst = 0 and bsz = 3
      and na = 2 and ast = 0 and asz = 2 and type_id = H5T_NATIVE_DOUBLE
      and w = "ex_world_field 1" and ds = "ex_field 1"
      and va = 0 and vb = 0 and vc = 1 and t = 1 and k = 1]
  have fid: "file_id ex_handle = 7" by (simp add: ex_handle_def)
  have h: "H5Tfind H5T_NATIVE_DOUBLE (ds_type (ex_field 1))" by (simp add: ex_field_def)
  have len: "int (length ex_layout2) = 2" by (simp add: ex_layout2_def esio_layout_def)
  from t show ?thesis
    using m c r cl h
    by (simp add: fid len stored_metadata_examples lookup_dset_examples
          esio_type_ncomponents_scalar ex_handle_def)
qed

subsection \<open>Element transfers\<close>

lemma length_fold_update:
  "length (fold (\<lambda>(i, v) d. d[i := v]) ps d) = length d"
  by (induction ps arbitrary: d) auto



lemma fold_write_as_updates:
  "fold (\<lambda>(m, f) d. d[f := g m]) (zip ms fs) d
   = fold (\<lambda>(i, v) d. d[i := v]) (map (\<lambda>(m, f). (f, g m)) (zip ms fs)) d"
  by (simp add: fold_map comp_def split_def)



lemma length_written:
  "length (fold (\<lambda>(m, f) d. d[f := g m]) (zip ms fs) d) = length d"
  unfolding fold_write_as_updates by (rule length_fold_update)




subsection \<open>The file block of a decomposition\<close>




subsection \<open>The layout-0 kernel on a stored field\<close>











subsection \<open>The engine on a stored field and on a new field\<close>










subsection \<open>Round trip\<close>


lemma block_elems_whole_example:
  "block_elems [4, 3, 2] [0, 0, 0] [4, 3, 2] \<noteq> None"
  by (simp add: block_elems_def)


subsection \<open>Writing to a field that exists\<close>






end
